theory Spec2Isabelle
  imports Complex_Main "HOL-Library.Word" "HOL-Library.Log_Nat"
begin

section \<open>Dailywork-tracker: screenshot analysis and work reports (src/lib/ai/gemini.ts)\<close>

text \<open>
  The module has one private caller of the completion endpoint (\<open>callOpenAI\<close>), two
  exported operations (\<open>analyzeScreenshot\<close>, \<open>generateReport\<close>) and one private
  validator (\<open>validateActivityType\<close>). The embedding below follows the source line by
  line. What the source takes from outside is a parameter of the model, collected in the
  record \<open>env\<close>: the credential read from the process environment, the \<open>fetch\<close>
  function, the built-in \<open>JSON.parse\<close> and the clock behind \<open>new Date()\<close>. A
  \<open>throw\<close> (a rejected promise) is the left injection of a sum, a \<open>try\<close> block is
  a case distinction on it. The \<open>await\<close>s are sequential and the module has no shared
  state, so the promises are modelled by their outcomes. The two calls of
  \<open>console.error\<close> only write to the log and return nothing; they are left out.
\<close>

subsection \<open>Strings\<close>

text \<open>
  A JavaScript string is a sequence of 16-bit UTF-16 code units: \<open>length\<close> and
  \<open>slice\<close> count code units. The literals of the source that are not ASCII are given
  by their code units.
\<close>

type_synonym jstring = "16 word list"

definition ascii :: "string \<Rightarrow> jstring" where
  "ascii s = map of_char s"

text \<open>
  The text that a template literal or \<open>+\<close> gives for an integer-valued number below
  \<open>10^21\<close> (ECMAScript Number::toString, radix 10): its decimal digits.
\<close>

fun number_to_string :: "nat \<Rightarrow> jstring" where
  "number_to_string n =
     (if n < 10 then [of_nat (48 + n)]
      else number_to_string (n div 10) @ [of_nat (48 + n mod 10)])"

declare number_to_string.simps [simp del]

text \<open>\<open>Array.prototype.join\<close> on an array of strings.\<close>

fun array_join :: "jstring \<Rightarrow> jstring list \<Rightarrow> jstring" where
  "array_join sep [] = []"
| "array_join sep [x] = x"
| "array_join sep (x # y # ys) = x @ sep @ array_join sep (y # ys)"

text \<open>\<open>s || d\<close> for a string or \<open>undefined\<close> on the left: the empty string is falsy.\<close>

fun string_or :: "jstring option \<Rightarrow> jstring \<Rightarrow> jstring" where
  "string_or None d = d"
| "string_or (Some s) d = (if s = [] then d else s)"

subsection \<open>Untyped values\<close>

text \<open>
  \<open>JSON.parse\<close> and \<open>response.json()\<close> return a value of type \<open>any\<close>; the
  source reads properties of it with \<open>.\<close>, \<open>?.\<close> and \<open>[0]\<close> and defaults
  with \<open>||\<close>. A finite number is given by its value (so \<open>-0\<close> is \<open>0\<close>), an
  overflowing JSON number is an infinity. An object lists its own properties; an earlier
  entry of the list shadows a later one with the same key.
\<close>

datatype jsval =
    JUndefined
  | JNull
  | JBool bool
  | JNum rat
  | JInfinity bool
  | JStr jstring
  | JArr "jsval list"
  | JObj "(jstring \<times> jsval) list"

fun truthy :: "jsval \<Rightarrow> bool" where
  "truthy JUndefined = False"
| "truthy JNull = False"
| "truthy (JBool b) = b"
| "truthy (JNum x) = (x \<noteq> 0)"
| "truthy (JInfinity s) = True"
| "truthy (JStr s) = (s \<noteq> [])"
| "truthy (JArr xs) = True"
| "truthy (JObj ps) = True"

definition js_or :: "jsval \<Rightarrow> jsval \<Rightarrow> jsval" where
  "js_or a b = (if truthy a then a else b)"

text \<open>
  What is thrown: an \<open>Error\<close> object with its message (a string), or some other
  value, given by the text that \<open>String(...)\<close> makes of it. \<open>error_message\<close> is the expression
  \<open>error instanceof Error ? error.message : String(error)\<close> of \<open>analyzeScreenshot\<close>.
\<close>

datatype thrown = ErrorObj jstring | NonError jstring

fun error_message :: "thrown \<Rightarrow> jstring" where
  "error_message (ErrorObj message) = message"
| "error_message (NonError s) = s"

text \<open>Sequencing of steps that may throw: the first throw ends the block.\<close>

fun try_bind :: "thrown + 'a \<Rightarrow> ('a \<Rightarrow> thrown + 'b) \<Rightarrow> thrown + 'b" where
  "try_bind (Inl e) f = Inl e"
| "try_bind (Inr x) f = f x"

text \<open>
  Reading a property. On \<open>undefined\<close> and \<open>null\<close> it throws a TypeError (the message
  is the one of V8, the engine of Node.js); everywhere else it gives the own property or
  \<open>undefined\<close>. The only keys this module reads are \<open>choices\<close>, \<open>0\<close>,
  \<open>message\<close>, \<open>content\<close>, \<open>app_name\<close>, \<open>activity_type\<close>,
  \<open>description\<close>, \<open>detailed_content\<close>, \<open>summary\<close> and \<open>activity_log\<close>:
  no built-in prototype defines one of them, and \<open>0\<close> is the first element of an
  array and the first code unit of a string.
\<close>

definition type_error :: "jsval \<Rightarrow> jstring \<Rightarrow> thrown" where
  "type_error v k =
     ErrorObj (ascii ''Cannot read properties of '' @
               (if v = JNull then ascii ''null'' else ascii ''undefined'') @
               ascii '' (reading '' @ [0x27] @ k @ [0x27] @ ascii '')'')"

fun get_prop :: "jsval \<Rightarrow> jstring \<Rightarrow> thrown + jsval" where
  "get_prop JUndefined k = Inl (type_error JUndefined k)"
| "get_prop JNull k = Inl (type_error JNull k)"
| "get_prop (JObj ps) k = Inr (case map_of ps k of None \<Rightarrow> JUndefined | Some v \<Rightarrow> v)"
| "get_prop (JArr xs) k =
     Inr (if k = ascii ''0'' then (case xs of [] \<Rightarrow> JUndefined | x # _ \<Rightarrow> x) else JUndefined)"
| "get_prop (JStr s) k =
     Inr (if k = ascii ''0'' then (case s of [] \<Rightarrow> JUndefined | c # _ \<Rightarrow> JStr [c])
          else JUndefined)"
| "get_prop (JBool b) k = Inr JUndefined"
| "get_prop (JNum x) k = Inr JUndefined"
| "get_prop (JInfinity s) k = Inr JUndefined"

text \<open>Optional chaining \<open>v?.k\<close>.\<close>

definition opt_prop :: "jsval \<Rightarrow> jstring \<Rightarrow> thrown + jsval" where
  "opt_prop v k = (if v = JUndefined \<or> v = JNull then Inr JUndefined else get_prop v k)"

subsection \<open>Numbers\<close>

text \<open>
  A JavaScript number is an IEEE 754 binary64 value. The arithmetic of \<open>generateReport\<close>
  works on counts and on the session duration, which are not negative; a finite number
  that is not negative is given by its exact value, a rational. \<open>fl\<close> rounds a
  rational to the nearest value with a significand of 53 bits, ties to the even
  significand: for \<open>x\<close> with \<open>2^k \<le> x < 2^(k+1)\<close>, where \<open>k\<close> is
  \<open>ilog2 x\<close>, the multiples of \<open>2^(k-52)\<close> are the candidates. This is the
  rounding of binary64 in its normal range, from \<open>2^-1022\<close> up to \<open>2^1024\<close>,
  which holds every product and quotient of an array length (below \<open>2^32\<close>) and a
  duration below \<open>2^53\<close>. \<open>Math.round\<close> is the nearest integer, a tie going up.
\<close>

type_synonym number = rat

definition pow2 :: "int \<Rightarrow> rat" where
  "pow2 e = (if 0 \<le> e then 2 ^ nat e else 1 / 2 ^ nat (- e))"

definition ilog2 :: "rat \<Rightarrow> int" where
  "ilog2 x = (let (a, b) = quotient_of x;
                  k = bitlen a - bitlen b
              in if pow2 k \<le> x then k else k - 1)"

definition fl :: "rat \<Rightarrow> number" where
  "fl x = (if x \<le> 0 then 0 else
     let e = ilog2 x - 52;
         s = x / pow2 e;
         n = \<lfloor>s\<rfloor>;
         r = s - of_int n;
         m = (if r < 1 / 2 then n else if 1 / 2 < r then n + 1
              else if even n then n else n + 1)
     in of_int m * pow2 e)"

definition js_mul :: "number \<Rightarrow> number \<Rightarrow> number" where
  "js_mul a b = fl (a * b)"

text \<open>The only divisor of this module is \<open>totalCount\<close>, which is never zero.\<close>

definition js_div :: "number \<Rightarrow> number \<Rightarrow> number" where
  "js_div a b = fl (a / b)"

definition Math_round :: "number \<Rightarrow> int" where
  "Math_round x = \<lfloor>x + 1 / 2\<rfloor>"

subsection \<open>The outside world\<close>

datatype content_part =
    ImageUrl jstring jstring
  | TextPart jstring

datatype message_content = Parts "content_part list" | Plain jstring

record message =
  role :: jstring
  content :: message_content

text \<open>The object given to \<open>JSON.stringify\<close> for the request body.\<close>

record request_body =
  body_model :: jstring
  body_messages :: "message list"
  max_completion_tokens :: nat
  response_format_type :: jstring

record request =
  req_url :: jstring
  req_method :: jstring
  req_headers :: "(jstring \<times> jstring) list"
  req_body :: request_body

text \<open>
  A response of \<open>fetch\<close>: the flag \<open>ok\<close>, and what \<open>text()\<close> and \<open>json()\<close>
  resolve to or reject with.
\<close>

record response =
  resp_ok :: bool
  resp_text :: "thrown + jstring"
  resp_json :: "thrown + jsval"

text \<open>
  \<open>OPENAI_API_KEY\<close> is \<open>process.env.OPENAI_API_KEY\<close>, a string or \<open>undefined\<close>.
  \<open>JSON_parse\<close> takes any value, as the built-in does (it converts its argument to a
  string first). \<open>now_iso\<close> is \<open>new Date().toISOString()\<close>.
\<close>

record env =
  OPENAI_API_KEY :: "jstring option"
  fetch :: "request \<Rightarrow> thrown + response"
  JSON_parse :: "jsval \<Rightarrow> thrown + jsval"
  now_iso :: jstring

subsection \<open>callOpenAI\<close>

definition OPENAI_API_URL :: jstring where
  "OPENAI_API_URL = ascii ''https://api.openai.com/v1/chat/completions''"

text \<open>The \<open>messages\<close> array: \<open>if (imageBase64)\<close> is false for a missing and for an empty string.\<close>

definition build_messages :: "jstring \<Rightarrow> jstring option \<Rightarrow> message list" where
  "build_messages prompt imageBase64 =
     (case imageBase64 of
        None \<Rightarrow> [\<lparr>role = ascii ''user'', content = Plain prompt\<rparr>]
      | Some img \<Rightarrow>
          if img = [] then [\<lparr>role = ascii ''user'', content = Plain prompt\<rparr>]
          else [\<lparr>role = ascii ''user'',
                 content = Parts [ImageUrl (ascii ''data:image/jpeg;base64,'' @ img) (ascii ''high''),
                                  TextPart prompt]\<rparr>])"

definition build_request :: "jstring \<Rightarrow> message list \<Rightarrow> request" where
  "build_request key msgs =
     \<lparr>req_url = OPENAI_API_URL,
      req_method = ascii ''POST'',
      req_headers = [(ascii ''Content-Type'', ascii ''application/json''),
                     (ascii ''Authorization'', ascii ''Bearer '' @ key)],
      req_body = \<lparr>body_model = ascii ''gpt-5-mini-2025-08-07'',
                  body_messages = msgs,
                  max_completion_tokens = 2000,
                  response_format_type = ascii ''json_object''\<rparr>\<rparr>"

text \<open>\<open>data.choices[0]?.message?.content || '{}'\<close>\<close>

definition first_choice_text :: "jsval \<Rightarrow> thrown + jsval" where
  "first_choice_text data =
     try_bind (get_prop data (ascii ''choices'')) (\<lambda>choices.
     try_bind (get_prop choices (ascii ''0'')) (\<lambda>choice.
     try_bind (opt_prop choice (ascii ''message'')) (\<lambda>msg.
     try_bind (opt_prop msg (ascii ''content'')) (\<lambda>text.
       Inr (js_or text (JStr (ascii ''{}'')))))))"

definition callOpenAI :: "env \<Rightarrow> jstring \<Rightarrow> jstring option \<Rightarrow> thrown + jsval" where
  "callOpenAI world prompt imageBase64 =
     (case OPENAI_API_KEY world of
        None \<Rightarrow> Inl (ErrorObj (ascii ''OPENAI_API_KEY is not configured''))
      | Some key \<Rightarrow>
          if key = [] then Inl (ErrorObj (ascii ''OPENAI_API_KEY is not configured''))
          else
            try_bind (fetch world (build_request key (build_messages prompt imageBase64)))
              (\<lambda>response.
                 if \<not> resp_ok response
                 then try_bind (resp_text response) (\<lambda>error.
                        Inl (ErrorObj (ascii ''OpenAI API error: '' @ error)))
                 else try_bind (resp_json response) first_choice_text))"

subsection \<open>validateActivityType\<close>

definition validTypes :: "jstring list" where
  "validTypes = map ascii [''coding'', ''browsing'', ''documentation'', ''communication'',
                           ''meeting'', ''design'', ''entertainment'', ''other'']"

text \<open>
  \<open>includes\<close> compares with SameValueZero: a value is found in the array of strings
  when it is one of these strings. The argument is declared a string, and
  \<open>analyzeScreenshot\<close> passes a property of the parsed JSON, which may be anything.
\<close>

definition validateActivityType :: "jsval \<Rightarrow> jsval" where
  "validateActivityType type =
     (if type \<in> set (map JStr validTypes) then type else JStr (ascii ''other''))"


subsection \<open>analyzeScreenshot\<close>

text \<open>
  The fields of an analysis. The object that \<open>analyzeScreenshot\<close> builds takes
  \<open>app_name\<close>, \<open>description\<close> and \<open>detailed_content\<close> from the parsed JSON, so
  at run time they hold whatever the JSON holds: there the fields are untyped values. The
  records that \<open>generateReport\<close> is declared to take (\<open>ScreenshotAnalysis[]\<close>) have
  string fields; it reads \<open>detailed_content\<close> with \<open>?.\<close>, so that field may be
  missing. The extension slot of the record stands for \<open>id\<close>, \<open>screenshot_id\<close> and
  \<open>created_at\<close>, which this module never reads.
\<close>

record ('t, 'd) analysis_fields =
  app_name :: 't
  activity_type :: 't
  description :: 't
  detailed_content :: 'd
  tags :: "jstring list"
  confidence :: number
  raw_response :: 't

type_synonym AnalysisResult = "(jsval, jsval) analysis_fields"

type_synonym 'z ScreenshotAnalysis = "(jstring, jstring option, 'z) analysis_fields_scheme"

text \<open>The instruction sent with the screenshot (the template literal of the source).\<close>

definition analyze_prompt :: jstring where
  "analyze_prompt =
     [0x5206, 0x6790, 0x8FD9, 0x5F20, 0x5C4F, 0x5E55, 0x622A, 0x56FE, 0xFF0C, 0x8BE6,
      0x7EC6, 0x8BB0, 0x5F55, 0x7528, 0x6237, 0x6B63, 0x5728, 0x505A, 0x4EC0, 0x4E48,
      0x3002, 0x8FD4, 0x56DE] @
     ascii ''JSON'' @
     [0xFF1A, 0xA, 0xA] @
     ascii ''{'' @
     [0xA] @
     ascii ''  '' @
     [0x22] @
     ascii ''app_name'' @
     [0x22] @
     ascii '': '' @
     [0x22, 0x5E94, 0x7528, 0x540D, 0x79F0, 0x22] @
     ascii '','' @
     [0xA] @
     ascii ''  '' @
     [0x22] @
     ascii ''activity_type'' @
     [0x22] @
     ascii '': '' @
     [0x22] @
     ascii ''coding/browsing/documentation/communication/meeting/design/entertainment/other'' @
     [0x22] @
     ascii '','' @
     [0xA] @
     ascii ''  '' @
     [0x22] @
     ascii ''description'' @
     [0x22] @
     ascii '': '' @
     [0x22, 0x4E00, 0x53E5, 0x8BDD, 0x63CF, 0x8FF0, 0x6B63, 0x5728, 0x505A, 0x4EC0, 0x4E48,
      0x22] @
     ascii '','' @
     [0xA] @
     ascii ''  '' @
     [0x22] @
     ascii ''detailed_content'' @
     [0x22] @
     ascii '': '' @
     [0x22, 0x8BE6, 0x7EC6, 0x8BB0, 0x5F55, 0x5C4F, 0x5E55, 0x5185, 0x5BB9, 0xFF1A, 0x6B63,
      0x5728, 0x7F16, 0x8F91, 0x4EC0, 0x4E48, 0x6587, 0x4EF6, 0x3001, 0x5199, 0x4EC0,
      0x4E48, 0x4EE3, 0x7801, 0x3001, 0x770B, 0x4EC0, 0x4E48, 0x7F51, 0x9875, 0x3001,
      0x548C, 0x8C01, 0x804A, 0x5929, 0x804A, 0x4EC0, 0x4E48, 0x3001, 0x8BFB, 0x4EC0,
      0x4E48, 0x6587, 0x6863, 0x7B49, 0xFF0C] @
     ascii ''200-400'' @
     [0x5B57, 0xFF0C, 0x8981, 0x5177, 0x4F53, 0x22, 0xA] @
     ascii ''}''"

text \<open>The prefix of the fallback description: U+5206 U+6790 U+5931 U+8D25, a colon, a space.\<close>

definition failure_prefix :: jstring where
  "failure_prefix = [0x5206, 0x6790, 0x5931, 0x8D25] @ ascii '': ''"

text \<open>
  The body of the \<open>try\<close> block. The number literal \<open>0.8\<close> is the binary64 value
  nearest to 4/5.
\<close>

definition analyzeScreenshot_try :: "env \<Rightarrow> jstring \<Rightarrow> thrown + AnalysisResult" where
  "analyzeScreenshot_try world imageBase64 =
     try_bind (callOpenAI world analyze_prompt (Some imageBase64)) (\<lambda>response.
     try_bind (JSON_parse world response) (\<lambda>result.
     try_bind (get_prop result (ascii ''app_name'')) (\<lambda>r_app_name.
     try_bind (get_prop result (ascii ''activity_type'')) (\<lambda>r_activity_type.
     try_bind (get_prop result (ascii ''description'')) (\<lambda>r_description.
     try_bind (get_prop result (ascii ''detailed_content'')) (\<lambda>r_detailed_content.
       Inr \<lparr>app_name = js_or r_app_name (JStr (ascii ''Unknown'')),
            activity_type = validateActivityType r_activity_type,
            description = js_or r_description (JStr []),
            detailed_content = js_or r_detailed_content (JStr []),
            tags = [],
            confidence = fl (4 / 5),
            raw_response = response\<rparr>))))))"

text \<open>The \<open>catch\<close> block.\<close>

definition analyzeScreenshot_catch :: "thrown \<Rightarrow> AnalysisResult" where
  "analyzeScreenshot_catch error =
     (let errorMessage = error_message error
      in \<lparr>app_name = JStr (ascii ''Unknown''),
          activity_type = JStr (ascii ''other''),
          description = JStr (failure_prefix @ take 50 errorMessage),
          detailed_content = JStr errorMessage,
          tags = [],
          confidence = 0,
          raw_response = JStr errorMessage\<rparr>)"

definition analyzeScreenshot :: "env \<Rightarrow> jstring \<Rightarrow> thrown + AnalysisResult" where
  "analyzeScreenshot world imageBase64 =
     (case analyzeScreenshot_try world imageBase64 of
        Inr r \<Rightarrow> Inr r
      | Inl error \<Rightarrow> Inr (analyzeScreenshot_catch error))"

subsection \<open>generateReport\<close>

text \<open>
  \<open>sessionDurationMinutes\<close> is declared a \<open>number\<close>; the requirements give it
  as a duration in minutes that is not negative. The model takes a natural number of
  minutes (below \<open>2^53\<close> every one of them is a binary64 value, and below
  \<open>10^21\<close> its text in a template literal is \<open>number_to_string\<close>). The counts
  of the two maps and \<open>analyses.length\<close> are natural numbers as well.
\<close>

text \<open>
  A JavaScript \<open>Map\<close> keeps its keys in the order of their first insertion; \<open>set\<close>
  on a key that is present replaces the value and leaves the key in its place.
\<close>

type_synonym ('k, 'v) js_map = "('k \<times> 'v) list"

definition Map_get :: "('k, 'v) js_map \<Rightarrow> 'k \<Rightarrow> 'v option" where
  "Map_get m k = map_of m k"

fun Map_set :: "('k, 'v) js_map \<Rightarrow> 'k \<Rightarrow> 'v \<Rightarrow> ('k, 'v) js_map" where
  "Map_set [] k v = [(k, v)]"
| "Map_set ((k', v') # m) k v = (if k' = k then (k, v) # m else (k', v') # Map_set m k v)"

text \<open>\<open>(m.get(k) || 0) + 1\<close>\<close>

definition bump :: "('k, nat) js_map \<Rightarrow> 'k \<Rightarrow> ('k, nat) js_map" where
  "bump m k = Map_set m k ((case Map_get m k of None \<Rightarrow> 0 | Some c \<Rightarrow> c) + 1)"

text \<open>
  The counting loop: the pair is (\<open>activityStats\<close>, \<open>appStats\<close>). The loop, the
  time breakdown and the \<open>catch\<close> block read only \<open>activity_type\<close> and
  \<open>app_name\<close>, so their definitions leave the type of \<open>detailed_content\<close> open.
\<close>

definition count_stats ::
  "(jstring, 'd, 'z) analysis_fields_scheme list \<Rightarrow>
     (jstring, nat) js_map \<times> (jstring, nat) js_map" where
  "count_stats analyses =
     fold (\<lambda>analysis (activityStats, appStats).
             (bump activityStats (activity_type analysis), bump appStats (app_name analysis)))
          analyses ([], [])"

text \<open>\<open>analyses.length || 1\<close>\<close>

definition totalCount :: "(jstring, 'd, 'z) analysis_fields_scheme list \<Rightarrow> nat" where
  "totalCount analyses = (if length analyses = 0 then 1 else length analyses)"

text \<open>
  \<open>timeBreakdown\<close> is an object literal \<open>{}\<close>, whose prototype is
  \<open>Object.prototype\<close>, and the loop stores into it with \<open>timeBreakdown[activity] = {...}\<close>.
  For every key but one this creates or replaces an own property. For the key
  \<open>__proto__\<close> it calls the setter that \<open>Object.prototype\<close> defines under that name
  (ECMAScript, B.2.2.1), which, the value being an object, makes the value the prototype
  of \<open>timeBreakdown\<close> and creates no own property. The model keeps the own properties
  as a map and the replaced prototype apart.
\<close>

record breakdown_entry =
  duration_minutes :: int
  percentage :: int

record TimeBreakdown =
  own_props :: "jstring \<rightharpoonup> breakdown_entry"
  prototype :: "breakdown_entry option"

definition empty_object :: TimeBreakdown where
  "empty_object = \<lparr>own_props = Map.empty, prototype = None\<rparr>"

definition set_property :: "TimeBreakdown \<Rightarrow> jstring \<Rightarrow> breakdown_entry \<Rightarrow> TimeBreakdown" where
  "set_property obj k v =
     (if k = ascii ''__proto__'' then obj\<lparr>prototype := Some v\<rparr>
      else obj\<lparr>own_props := (own_props obj)(k \<mapsto> v)\<rparr>)"

text \<open>The body of \<open>activityStats.forEach\<close>, for one entry.\<close>

definition breakdown_of :: "nat \<Rightarrow> nat \<Rightarrow> nat \<Rightarrow> breakdown_entry" where
  "breakdown_of sessionDurationMinutes total_count count =
     (let percentage = js_mul (js_div (of_nat count) (of_nat total_count)) 100
      in \<lparr>duration_minutes =
            Math_round (js_div (js_mul (of_nat sessionDurationMinutes) (of_nat count))
                               (of_nat total_count)),
          percentage = Math_round percentage\<rparr>)"

definition timeBreakdown ::
  "(jstring, 'd, 'z) analysis_fields_scheme list \<Rightarrow> nat \<Rightarrow> TimeBreakdown" where
  "timeBreakdown analyses sessionDurationMinutes =
     fold (\<lambda>(activity, count) obj.
             set_property obj activity
               (breakdown_of sessionDurationMinutes (totalCount analyses) count))
          (fst (count_stats analyses)) empty_object"

text \<open>One line of the digest: the template literal inside \<open>map\<close>.\<close>

definition digest_line :: "'z ScreenshotAnalysis \<Rightarrow> jstring" where
  "digest_line a =
     ascii ''['' @ app_name a @ ascii ''] '' @ description a @ ascii '': '' @
     string_or (map_option (take 200) (detailed_content a)) []"

definition contents :: "'z ScreenshotAnalysis list \<Rightarrow> jstring" where
  "contents analyses = array_join [0x0A] (map digest_line (take 30 analyses))"

text \<open>The four fixed pieces of the prompt's template literal, around its three holes.\<close>

definition prompt_head :: jstring where
  "prompt_head =
     [0x6839, 0x636E, 0x4EE5, 0x4E0B, 0x5DE5, 0x4F5C, 0x8BB0, 0x5F55, 0x751F, 0x6210,
      0x6C47, 0x603B, 0xFF0C, 0x8FD4, 0x56DE] @
     ascii ''JSON'' @
     [0xFF1A, 0xA, 0xA, 0x5DE5, 0x4F5C, 0x65F6, 0x957F, 0xFF1A]"

definition prompt_after_duration :: jstring where
  "prompt_after_duration = [0x5206, 0x949F, 0xA, 0x8BB0, 0x5F55, 0x6570, 0xFF1A]"

definition prompt_after_count :: jstring where
  "prompt_after_count = [0xA, 0xA, 0x6D3B, 0x52A8, 0x8BE6, 0x60C5, 0xFF1A, 0xA]"

definition prompt_tail :: jstring where
  "prompt_tail =
     [0xA, 0xA] @
     ascii ''{'' @
     [0xA] @
     ascii ''  '' @
     [0x22] @
     ascii ''summary'' @
     [0x22] @
     ascii '': '' @
     [0x22, 0x4ECA, 0x5929, 0x7684, 0x5DE5, 0x4F5C, 0x6C47, 0x603B, 0xFF0C] @
     ascii ''5-8'' @
     [0x53E5, 0x8BDD, 0xFF0C, 0x5177, 0x4F53, 0x63CF, 0x8FF0, 0x505A, 0x4E86, 0x4EC0,
      0x4E48, 0x22] @
     ascii '','' @
     [0xA] @
     ascii ''  '' @
     [0x22] @
     ascii ''activity_log'' @
     [0x22] @
     ascii '': ['' @
     [0x22, 0x4E3B, 0x8981, 0x6D3B, 0x52A8] @
     ascii ''1'' @
     [0x22] @
     ascii '', '' @
     [0x22, 0x4E3B, 0x8981, 0x6D3B, 0x52A8] @
     ascii ''2'' @
     [0x22] @
     ascii '', '' @
     [0x22] @
     ascii ''...5-10'' @
     [0x9879, 0x22] @
     ascii '']'' @
     [0xA] @
     ascii ''}''"

definition report_prompt :: "'z ScreenshotAnalysis list \<Rightarrow> nat \<Rightarrow> jstring" where
  "report_prompt analyses sessionDurationMinutes =
     prompt_head @ number_to_string sessionDurationMinutes @
     prompt_after_duration @ number_to_string (length analyses) @
     prompt_after_count @ contents analyses @ prompt_tail"

record report_fields =
  summary :: jsval
  highlights :: "jsval list"
  time_breakdown :: TimeBreakdown
  productivity_score :: number
  suggestions :: "jstring list"
  generated_at :: jstring

text \<open>The default summary of the success path: U+4ECA U+65E5 U+5DE5 U+4F5C U+5B8C U+6210.\<close>

definition default_summary :: jstring where
  "default_summary = [0x4ECA, 0x65E5, 0x5DE5, 0x4F5C, 0x5B8C, 0x6210]"

text \<open>\<open>Array.isArray(v) ? v : []\<close>\<close>

fun array_or_empty :: "jsval \<Rightarrow> jsval list" where
  "array_or_empty (JArr xs) = xs"
| "array_or_empty v = []"

text \<open>The body of the \<open>try\<close> block.\<close>

definition generateReport_try ::
  "env \<Rightarrow> 'z ScreenshotAnalysis list \<Rightarrow> nat \<Rightarrow> thrown + report_fields" where
  "generateReport_try world analyses sessionDurationMinutes =
     try_bind (callOpenAI world (report_prompt analyses sessionDurationMinutes) None)
       (\<lambda>response.
     try_bind (JSON_parse world response) (\<lambda>result.
     try_bind (get_prop result (ascii ''summary'')) (\<lambda>r_summary.
     try_bind (get_prop result (ascii ''activity_log'')) (\<lambda>r_activity_log.
       Inr \<lparr>summary = js_or r_summary (JStr default_summary),
            highlights = array_or_empty r_activity_log,
            time_breakdown = timeBreakdown analyses sessionDurationMinutes,
            productivity_score = 0,
            suggestions = [],
            generated_at = now_iso world\<rparr>))))"

text \<open>
  The \<open>catch\<close> block. \<open>topApps\<close> is the keys of \<open>appStats\<close> in the order of the
  map. The pieces of the summary's template literal are, in the source's order: U+4ECA
  U+65E5 U+5DE5 U+4F5C and a space; a space, U+5206 U+949F U+FF0C U+5171 and a space; a
  space, U+6761 U+8BB0 U+5F55 U+3002 U+4F7F U+7528 U+4E86 and a space; the full stop
  U+3002. The separator of \<open>join\<close> is U+3001, the text used when the joined names are
  empty is U+591A U+4E2A U+5E94 U+7528, and a highlight starts with U+4F7F U+7528 and a
  space.
\<close>

definition topApps :: "(jstring, 'd, 'z) analysis_fields_scheme list \<Rightarrow> jstring list" where
  "topApps analyses = map fst (snd (count_stats analyses))"

definition fallback_summary ::
  "(jstring, 'd, 'z) analysis_fields_scheme list \<Rightarrow> nat \<Rightarrow> jstring" where
  "fallback_summary analyses sessionDurationMinutes =
     ([0x4ECA, 0x65E5, 0x5DE5, 0x4F5C] @ ascii '' '') @
     number_to_string sessionDurationMinutes @
     (ascii '' '' @ [0x5206, 0x949F, 0xFF0C, 0x5171] @ ascii '' '') @
     number_to_string (length analyses) @
     (ascii '' '' @ [0x6761, 0x8BB0, 0x5F55, 0x3002, 0x4F7F, 0x7528, 0x4E86] @ ascii '' '') @
     string_or (Some (array_join [0x3001] (take 3 (topApps analyses))))
               [0x591A, 0x4E2A, 0x5E94, 0x7528] @
     [0x3002]"

definition generateReport_catch ::
  "env \<Rightarrow> (jstring, 'd, 'z) analysis_fields_scheme list \<Rightarrow> nat \<Rightarrow> report_fields" where
  "generateReport_catch world analyses sessionDurationMinutes =
     \<lparr>summary = JStr (fallback_summary analyses sessionDurationMinutes),
      highlights = map (\<lambda>app. JStr (([0x4F7F, 0x7528] @ ascii '' '') @ app))
                       (take 5 (topApps analyses)),
      time_breakdown = timeBreakdown analyses sessionDurationMinutes,
      productivity_score = 0,
      suggestions = [],
      generated_at = now_iso world\<rparr>"

definition generateReport ::
  "env \<Rightarrow> 'z ScreenshotAnalysis list \<Rightarrow> nat \<Rightarrow> thrown + report_fields" where
  "generateReport world analyses sessionDurationMinutes =
     (case generateReport_try world analyses sessionDurationMinutes of
        Inr r \<Rightarrow> Inr r
      | Inl error \<Rightarrow> Inr (generateReport_catch world analyses sessionDurationMinutes))"


subsection \<open>generateReport on records as they are at run time\<close>

text \<open>
  The parameter of \<open>generateReport\<close> is declared \<open>ScreenshotAnalysis[]\<close>, but nothing
  checks that at run time, and \<open>analyzeScreenshot\<close> itself builds its record from a
  value of type \<open>any\<close>: its \<open>detailed_content\<close> is
  \<open>result.detailed_content || ''\<close>, whatever the JSON holds under that key (only
  \<open>activity_type\<close> is validated). So a record can reach \<open>generateReport\<close> whose
  \<open>detailed_content\<close> is not a string. The digest is built before the \<open>try\<close>
  block, so what it throws, \<open>generateReport\<close> throws. The definitions below are the
  source on such records. \<open>app_name\<close>, \<open>activity_type\<close> and \<open>description\<close>
  stay strings here: they are used as keys of a \<open>Map\<close> and inside template literals
  only, which take every value that JSON can hold and do not throw.
\<close>

type_synonym 'z RuntimeAnalysis = "(jstring, jsval, 'z) analysis_fields_scheme"

text \<open>
  \<open>v?.slice(0, 200)\<close>: \<open>undefined\<close> and \<open>null\<close> end the optional chain with
  \<open>undefined\<close>; a string and an array have the method \<open>slice\<close>; every other value
  has no property \<open>slice\<close>, and the call of \<open>undefined\<close> throws a TypeError (the
  message is the one of V8).
\<close>

fun optional_slice :: "jsval \<Rightarrow> thrown + jsval" where
  "optional_slice JUndefined = Inr JUndefined"
| "optional_slice JNull = Inr JUndefined"
| "optional_slice (JStr s) = Inr (JStr (take 200 s))"
| "optional_slice (JArr xs) = Inr (JArr (take 200 xs))"
| "optional_slice (JBool b) =
     Inl (ErrorObj (ascii ''a.detailed_content?.slice is not a function''))"
| "optional_slice (JNum x) =
     Inl (ErrorObj (ascii ''a.detailed_content?.slice is not a function''))"
| "optional_slice (JInfinity s) =
     Inl (ErrorObj (ascii ''a.detailed_content?.slice is not a function''))"
| "optional_slice (JObj ps) =
     Inl (ErrorObj (ascii ''a.detailed_content?.slice is not a function''))"

text \<open>The values on which \<open>v?.slice(0, 200)\<close> does not throw.\<close>

definition sliceable :: "jsval \<Rightarrow> bool" where
  "sliceable v = (case v of JUndefined \<Rightarrow> True | JNull \<Rightarrow> True | JStr s \<Rightarrow> True
                   | JArr xs \<Rightarrow> True | _ \<Rightarrow> False)"

text \<open>
  The text that a template literal makes of a value: a string is itself, every other value
  goes through the built-in conversion \<open>ToString\<close>, a parameter of the model. Only a
  slice of an array can reach it here.
\<close>

definition template_text :: "(jsval \<Rightarrow> jstring) \<Rightarrow> jsval \<Rightarrow> jstring" where
  "template_text ToString v = (case v of JStr s \<Rightarrow> s | _ \<Rightarrow> ToString v)"

text \<open>One line of the digest; the slice is the only step of it that can throw.\<close>

definition runtime_digest_line ::
  "(jsval \<Rightarrow> jstring) \<Rightarrow> 'z RuntimeAnalysis \<Rightarrow> thrown + jstring" where
  "runtime_digest_line ToString a =
     try_bind (optional_slice (detailed_content a)) (\<lambda>sliced.
       Inr (ascii ''['' @ app_name a @ ascii ''] '' @ description a @ ascii '': '' @
            template_text ToString (js_or sliced (JStr []))))"

text \<open>\<open>Array.prototype.map\<close> with a callback that may throw: the first throw ends it.\<close>

fun try_map :: "('a \<Rightarrow> thrown + 'b) \<Rightarrow> 'a list \<Rightarrow> thrown + 'b list" where
  "try_map f [] = Inr []"
| "try_map f (x # xs) =
     try_bind (f x) (\<lambda>y. try_bind (try_map f xs) (\<lambda>ys. Inr (y # ys)))"

definition runtime_contents ::
  "(jsval \<Rightarrow> jstring) \<Rightarrow> 'z RuntimeAnalysis list \<Rightarrow> thrown + jstring" where
  "runtime_contents ToString analyses =
     try_bind (try_map (runtime_digest_line ToString) (take 30 analyses)) (\<lambda>lines.
       Inr (array_join [0x0A] lines))"

text \<open>The \<open>try\<close> block, for the prompt built from the digest.\<close>

definition generateReport_runtime_try ::
  "env \<Rightarrow> 'z RuntimeAnalysis list \<Rightarrow> nat \<Rightarrow> jstring \<Rightarrow> thrown + report_fields" where
  "generateReport_runtime_try world analyses sessionDurationMinutes prompt =
     try_bind (callOpenAI world prompt None) (\<lambda>response.
     try_bind (JSON_parse world response) (\<lambda>result.
     try_bind (get_prop result (ascii ''summary'')) (\<lambda>r_summary.
     try_bind (get_prop result (ascii ''activity_log'')) (\<lambda>r_activity_log.
       Inr \<lparr>summary = js_or r_summary (JStr default_summary),
            highlights = array_or_empty r_activity_log,
            time_breakdown = timeBreakdown analyses sessionDurationMinutes,
            productivity_score = 0,
            suggestions = [],
            generated_at = now_iso world\<rparr>))))"

text \<open>
  The whole function: the counting loop and the time breakdown throw nothing and change
  nothing outside, so the first step that can end the function is the digest.
\<close>

definition generateReport_runtime ::
  "(jsval \<Rightarrow> jstring) \<Rightarrow> env \<Rightarrow> 'z RuntimeAnalysis list \<Rightarrow> nat \<Rightarrow>
     thrown + report_fields" where
  "generateReport_runtime ToString world analyses sessionDurationMinutes =
     try_bind (runtime_contents ToString analyses) (\<lambda>digest.
       case generateReport_runtime_try world analyses sessionDurationMinutes
              (prompt_head @ number_to_string sessionDurationMinutes @
               prompt_after_duration @ number_to_string (length analyses) @
               prompt_after_count @ digest @ prompt_tail) of
         Inr r \<Rightarrow> Inr r
       | Inl error \<Rightarrow> Inr (generateReport_catch world analyses sessionDurationMinutes))"

text \<open>A record of the declared type, as the value it is at run time.\<close>

definition at_run_time :: "'z ScreenshotAnalysis \<Rightarrow> 'z RuntimeAnalysis" where
  "at_run_time a =
     \<lparr>app_name = app_name a,
      activity_type = activity_type a,
      description = description a,
      detailed_content = (case detailed_content a of None \<Rightarrow> JUndefined | Some s \<Rightarrow> JStr s),
      tags = tags a,
      confidence = confidence a,
      raw_response = raw_response a,
      \<dots> = analysis_fields.more a\<rparr>"

text \<open>
  A record that \<open>analyzeScreenshot\<close> returned, handed on to \<open>generateReport\<close> as it
  is; defined when its text fields other than \<open>detailed_content\<close> are strings.
\<close>

fun text_field :: "jsval \<Rightarrow> jstring option" where
  "text_field (JStr s) = Some s"
| "text_field v = None"

definition passed_on :: "AnalysisResult \<Rightarrow> unit RuntimeAnalysis option" where
  "passed_on r =
     (case (text_field (app_name r), text_field (activity_type r),
            text_field (description r), text_field (raw_response r)) of
        (Some a, Some t, Some d, Some w) \<Rightarrow>
          Some \<lparr>app_name = a, activity_type = t, description = d,
                detailed_content = detailed_content r,
                tags = tags r, confidence = confidence r, raw_response = w\<rparr>
      | _ \<Rightarrow> None)"

subsection \<open>The order of first occurrence\<close>

text \<open>
  The distinct elements of a list in the order in which they are first seen: the head,
  then the first occurrences of the rest without it. This is the order the requirements
  give for the application names of the fallback summary.
\<close>

fun first_seen :: "'a list \<Rightarrow> 'a list" where
  "first_seen [] = []"
| "first_seen (x # xs) = x # removeAll x (first_seen xs)"

subsection \<open>What the digest may depend on\<close>

text \<open>
  The requirements on the digest: of the analyses only the first 30 count, and of each of
  them the application name, the description and the first 200 code units of the detailed
  content (nothing, when there is none).
\<close>

definition digest_input :: "'z ScreenshotAnalysis list \<Rightarrow> (jstring \<times> jstring \<times> jstring) list" where
  "digest_input analyses =
     map (\<lambda>a. (app_name a, description a,
                take 200 (case detailed_content a of None \<Rightarrow> [] | Some t \<Rightarrow> t)))
         (take 30 analyses)"

subsection \<open>Example inputs\<close>

text \<open>
  A parser that agrees with \<open>JSON.parse\<close> on the text \<open>{}\<close> and rejects what the
  examples below give it otherwise.
\<close>

definition example_parse :: "jsval \<Rightarrow> thrown + jsval" where
  "example_parse v =
     (if v = JStr (ascii ''{}'') then Inr (JObj [])
      else Inl (ErrorObj (ascii ''Unexpected token'')))"

text \<open>No credential is configured.\<close>

definition offline_world :: env where
  "offline_world =
     \<lparr>OPENAI_API_KEY = None,
      fetch = (\<lambda>req. Inl (ErrorObj (ascii ''fetch failed''))),
      JSON_parse = example_parse,
      now_iso = ascii ''2025-01-01T00:00:00.000Z''\<rparr>"

text \<open>The endpoint answers every request with status 200 and the JSON value \<open>data\<close>.\<close>

definition reply_world :: "jsval \<Rightarrow> env" where
  "reply_world data =
     \<lparr>OPENAI_API_KEY = Some (ascii ''sk-test''),
      fetch = (\<lambda>req. Inr \<lparr>resp_ok = True, resp_text = Inr [], resp_json = Inr data\<rparr>),
      JSON_parse = example_parse,
      now_iso = ascii ''2025-01-01T00:00:00.000Z''\<rparr>"

text \<open>The endpoint refuses every request, with the given body text.\<close>

definition refusing_world :: "jstring \<Rightarrow> env" where
  "refusing_world body =
     \<lparr>OPENAI_API_KEY = Some (ascii ''sk-test''),
      fetch = (\<lambda>req. Inr \<lparr>resp_ok = False, resp_text = Inr body,
                           resp_json = Inl (ErrorObj (ascii ''Unexpected token''))\<rparr>),
      JSON_parse = example_parse,
      now_iso = ascii ''2025-01-01T00:00:00.000Z''\<rparr>"

text \<open>A response body with no choice, and one whose first choice carries a text.\<close>

definition no_choice :: jsval where
  "no_choice = JObj [(ascii ''choices'', JArr [])]"

definition one_choice :: "jstring \<Rightarrow> jsval" where
  "one_choice t =
     JObj [(ascii ''choices'',
            JArr [JObj [(ascii ''message'', JObj [(ascii ''content'', JStr t)])]])]"

text \<open>A stored analysis with the given application name and activity type.\<close>

definition example_analysis :: "string \<Rightarrow> string \<Rightarrow> unit ScreenshotAnalysis" where
  "example_analysis app ty =
     \<lparr>app_name = ascii app,
      activity_type = ascii ty,
      description = ascii ''editing'',
      detailed_content = Some (ascii ''a file''),
      tags = [],
      confidence = fl (4 / 5),
      raw_response = ascii ''{}''\<rparr>"

text \<open>Seven stored analyses of one session, with six different applications.\<close>

definition example_session :: "unit ScreenshotAnalysis list" where
  "example_session =
     [example_analysis ''Code'' ''coding'', example_analysis ''Chrome'' ''browsing'',
      example_analysis ''Code'' ''coding'', example_analysis ''Slack'' ''communication'',
      example_analysis ''Figma'' ''design'', example_analysis ''Zoom'' ''meeting'',
      example_analysis ''Notion'' ''documentation'']"

text \<open>An analysis whose detailed content is 200 times the letter x and then \<open>ending\<close>.\<close>

definition long_analysis :: "string \<Rightarrow> unit ScreenshotAnalysis" where
  "long_analysis ending =
     \<lparr>app_name = ascii ''Code'',
      activity_type = ascii ''coding'',
      description = ascii ''editing'',
      detailed_content = Some (replicate 200 0x78 @ ascii ending),
      tags = [],
      confidence = fl (4 / 5),
      raw_response = ascii ''{}''\<rparr>"

text \<open>
  The model answers with the JSON text \<open>{"detailed_content": true}\<close>, and the parser
  reads it as \<open>JSON.parse\<close> does.
\<close>

definition flag_text :: jstring where
  "flag_text = ascii ''{'' @ [0x22] @ ascii ''detailed_content'' @ [0x22] @ ascii '': true}''"

definition flag_world :: env where
  "flag_world =
     \<lparr>OPENAI_API_KEY = Some (ascii ''sk-test''),
      fetch = (\<lambda>req. Inr \<lparr>resp_ok = True, resp_text = Inr [],
                           resp_json = Inr (one_choice flag_text)\<rparr>),
      JSON_parse = (\<lambda>v. if v = JStr flag_text
                         then Inr (JObj [(ascii ''detailed_content'', JBool True)])
                         else example_parse v),
      now_iso = ascii ''2025-01-01T00:00:00.000Z''\<rparr>"

text \<open>The record that \<open>analyzeScreenshot\<close> makes of that answer, handed on.\<close>

definition flagged_analysis :: "unit RuntimeAnalysis" where
  "flagged_analysis =
     \<lparr>app_name = ascii ''Unknown'',
      activity_type = ascii ''other'',
      description = [],
      detailed_content = JBool True,
      tags = [],
      confidence = fl (4 / 5),
      raw_response = flag_text\<rparr>"

section \<open>Properties\<close>

subsection \<open>Auxiliary facts\<close>

lemma try_bind_Inr_iff:
  "try_bind m f = Inr y \<longleftrightarrow> (\<exists>x. m = Inr x \<and> f x = Inr y)"
  by (cases m) auto

lemma try_bind_Inl_iff:
  "try_bind m f = Inl e \<longleftrightarrow> m = Inl e \<or> (\<exists>x. m = Inr x \<and> f x = Inl e)"
  by (cases m) auto

lemma js_or_defined:
  "b \<noteq> JUndefined \<Longrightarrow> b \<noteq> JNull \<Longrightarrow> js_or a b \<noteq> JUndefined \<and> js_or a b \<noteq> JNull"
  by (cases a) (auto simp: js_or_def)

lemma other_valid: "ascii ''other'' \<in> set validTypes"
  by (simp add: validTypes_def)

lemma coding_valid: "ascii ''coding'' \<in> set validTypes"
  by (simp add: validTypes_def)

lemma gaming_invalid: "ascii ''gaming'' \<notin> set validTypes"
  by (simp add: validTypes_def ascii_def)

lemma confidence_literal: "fl (4 / 5) = 3602879701896397 / 4503599627370496"
  by code_simp

lemma confidence_literal_nonzero: "fl (4 / 5) \<noteq> 0"
  by (simp add: confidence_literal)

lemma get_prop_total_on_objects:
  "v \<noteq> JUndefined \<Longrightarrow> v \<noteq> JNull \<Longrightarrow> \<exists>x. get_prop v k = Inr x"
  by (cases v) auto

lemma validateActivityType_member:
  "validateActivityType v \<in> JStr ` set validTypes"
  using other_valid by (auto simp: validateActivityType_def)

lemma validTypes_enumeration:
  "JStr ` set validTypes =
     {JStr (ascii ''coding''), JStr (ascii ''browsing''), JStr (ascii ''documentation''),
      JStr (ascii ''communication''), JStr (ascii ''meeting''), JStr (ascii ''design''),
      JStr (ascii ''entertainment''), JStr (ascii ''other'')}"
  by (simp add: validTypes_def)

lemma analyzeScreenshot_try_fields:
  assumes "analyzeScreenshot_try world img = Inr r"
  shows "activity_type r \<in> JStr ` set validTypes"
    and "confidence r = fl (4 / 5)"
    and "tags r = []"
    and "app_name r \<noteq> JUndefined \<and> app_name r \<noteq> JNull"
    and "description r \<noteq> JUndefined \<and> description r \<noteq> JNull"
    and "detailed_content r \<noteq> JUndefined \<and> detailed_content r \<noteq> JNull"
    and "callOpenAI world analyze_prompt (Some img) = Inr (raw_response r)"
  using assms validateActivityType_member js_or_defined
  unfolding analyzeScreenshot_try_def
  by (auto simp: try_bind_Inr_iff)

lemma first_choice_text_defined:
  "first_choice_text data = Inr t \<Longrightarrow> t \<noteq> JUndefined \<and> t \<noteq> JNull"
  unfolding first_choice_text_def
  using js_or_defined by (auto simp: try_bind_Inr_iff)

lemma callOpenAI_defined:
  "callOpenAI world prompt img = Inr t \<Longrightarrow> t \<noteq> JUndefined \<and> t \<noteq> JNull"
  unfolding callOpenAI_def
  using first_choice_text_defined
  by (auto simp: try_bind_Inr_iff split: option.splits if_splits)

lemma analyzeScreenshot_catch_fields:
  "analyzeScreenshot_catch e =
     \<lparr>app_name = JStr (ascii ''Unknown''),
      activity_type = JStr (ascii ''other''),
      description = JStr (failure_prefix @ take 50 (error_message e)),
      detailed_content = JStr (error_message e),
      tags = [],
      confidence = 0,
      raw_response = JStr (error_message e)\<rparr>"
  by (simp add: analyzeScreenshot_catch_def Let_def)

lemma analyzeScreenshot_paths:
  "(analyzeScreenshot_try world img = Inl e \<longrightarrow>
      analyzeScreenshot world img = Inr (analyzeScreenshot_catch e)) \<and>
   (analyzeScreenshot_try world img = Inr r \<longrightarrow> analyzeScreenshot world img = Inr r)"
  by (simp add: analyzeScreenshot_def)

lemma callOpenAI_no_key:
  "OPENAI_API_KEY world = None \<or> OPENAI_API_KEY world = Some [] \<Longrightarrow>
   callOpenAI world prompt img = Inl (ErrorObj (ascii ''OPENAI_API_KEY is not configured''))"
  by (auto simp: callOpenAI_def)

lemma callOpenAI_fetch:
  "OPENAI_API_KEY world = Some key \<Longrightarrow> key \<noteq> [] \<Longrightarrow>
   callOpenAI world prompt img =
     try_bind (fetch world (build_request key (build_messages prompt img)))
       (\<lambda>response.
          if \<not> resp_ok response
          then try_bind (resp_text response) (\<lambda>error.
                 Inl (ErrorObj (ascii ''OpenAI API error: '' @ error)))
          else try_bind (resp_json response) first_choice_text)"
  by (simp add: callOpenAI_def)

lemma first_choice_text_object:
  "map_of ps (ascii ''choices'') = Some (JArr cs) \<Longrightarrow>
   first_choice_text (JObj ps) =
     (case cs of
        [] \<Rightarrow> Inr (JStr (ascii ''{}''))
      | c # rest \<Rightarrow>
          try_bind (opt_prop c (ascii ''message'')) (\<lambda>msg.
          try_bind (opt_prop msg (ascii ''content'')) (\<lambda>text.
            Inr (js_or text (JStr (ascii ''{}''))))))"
  by (simp add: first_choice_text_def opt_prop_def js_or_def split: list.splits)

lemma choices_key_facts:
  "ascii ''choices'' \<noteq> ascii ''message''" "ascii ''message'' \<noteq> ascii ''content''"
  by (simp_all add: ascii_def)

lemma analyzeScreenshot_try_failures:
  "(callOpenAI world analyze_prompt (Some img) = Inl e \<longrightarrow>
      analyzeScreenshot_try world img = Inl e) \<and>
   (callOpenAI world analyze_prompt (Some img) = Inr resp \<and> JSON_parse world resp = Inl e \<longrightarrow>
      analyzeScreenshot_try world img = Inl e)"
  by (simp add: analyzeScreenshot_try_def)

lemma sk_test_nonempty: "ascii ''sk-test'' \<noteq> []"
  by (simp add: ascii_def)

lemma callOpenAI_offline:
  "callOpenAI offline_world prompt img =
     Inl (ErrorObj (ascii ''OPENAI_API_KEY is not configured''))"
  by (simp add: callOpenAI_def offline_world_def)

lemma callOpenAI_reply_no_choice:
  "callOpenAI (reply_world no_choice) prompt img = Inr (JStr (ascii ''{}''))"
  by (simp add: callOpenAI_def reply_world_def no_choice_def first_choice_text_def
        opt_prop_def js_or_def sk_test_nonempty)

lemma JSON_parse_reply_world:
  "JSON_parse (reply_world data) (JStr (ascii ''{}'')) = Inr (JObj [])"
  by (simp add: reply_world_def example_parse_def)

text \<open>
  Two checks of \<open>fl\<close> against values that every binary64 implementation gives: the
  number written \<open>0.1\<close>, and \<open>0.145 * 100\<close>, which is below 14.5 and so rounds
  to 14, where exact arithmetic would give 14.5 and 15.
\<close>

lemma fl_examples:
  "fl (1 / 10) = 3602879701896397 / 36028797018963968"
  "Math_round (js_mul (js_div 29 200) 100) = 14"
  by code_simp+

lemma keys_Map_set:
  "map fst (Map_set m k v) = (if k \<in> set (map fst m) then map fst m else map fst m @ [k])"
  by (induction m) (auto simp: rev_image_eqI)

lemma keys_bump:
  "map fst (bump m k) = (if k \<in> set (map fst m) then map fst m else map fst m @ [k])"
  by (simp add: bump_def keys_Map_set)

lemma first_seen_set: "set (first_seen xs) = set xs"
  by (induction xs) auto

lemma removeAll_first_seen:
  "removeAll k (first_seen ys) = first_seen (removeAll k ys)"
proof (induction ys)
  case Nil
  show ?case by simp
next
  case (Cons y ys)
  have comm: "removeAll k (removeAll y (first_seen ys)) = removeAll y (removeAll k (first_seen ys))"
    by (simp add: removeAll_filter_not_eq conj_commute)
  show ?case
  proof (cases "y = k")
    case True
    with Cons show ?thesis by (simp add: removeAll_id first_seen_set)
  next
    case False
    with Cons comm show ?thesis by simp
  qed
qed

lemma first_seen_distinct: "distinct (first_seen xs)"
  by (induction xs) (auto simp: distinct_removeAll)

lemma keys_fold_bump:
  "map fst (fold (\<lambda>k m. bump m k) ks m) =
     map fst m @ first_seen (filter (\<lambda>k. k \<notin> set (map fst m)) ks)"
proof (induction ks arbitrary: m)
  case Nil
  show ?case by simp
next
  case (Cons k ks)
  show ?case
  proof (cases "k \<in> set (map fst m)")
    case True
    then have "map fst (bump m k) = map fst m"
      by (simp add: keys_bump)
    with Cons [of "bump m k"] True show ?thesis by simp
  next
    case False
    then have keys: "map fst (bump m k) = map fst m @ [k]"
      by (simp add: keys_bump)
    have "filter (\<lambda>x. x \<notin> set (map fst m @ [k])) ks =
            removeAll k (filter (\<lambda>x. x \<notin> set (map fst m)) ks)"
      by (induction ks) auto
    with Cons [of "bump m k"] keys False show ?thesis
      by (simp add: removeAll_first_seen)
  qed
qed

lemma count_stats_fold:
  "fold (\<lambda>analysis (activityStats, appStats).
           (bump activityStats (activity_type analysis), bump appStats (app_name analysis)))
        analyses (m1, m2) =
     (fold (\<lambda>k m. bump m k) (map activity_type analyses) m1,
      fold (\<lambda>k m. bump m k) (map app_name analyses) m2)"
  by (induction analyses arbitrary: m1 m2) auto

lemma count_stats_eq:
  "count_stats analyses =
     (fold (\<lambda>k m. bump m k) (map activity_type analyses) [],
      fold (\<lambda>k m. bump m k) (map app_name analyses) [])"
  by (simp add: count_stats_def count_stats_fold)

lemma topApps_first_seen: "topApps analyses = first_seen (map app_name analyses)"
  using keys_fold_bump [of "map app_name analyses" "[]"]
  by (simp add: topApps_def count_stats_eq)

lemma activity_keys_first_seen:
  "map fst (fst (count_stats analyses)) = first_seen (map activity_type analyses)"
  using keys_fold_bump [of "map activity_type analyses" "[]"]
  by (simp add: count_stats_eq)

lemma dom_set_property:
  "dom (own_props (set_property obj k v)) =
     (if k = ascii ''__proto__'' then dom (own_props obj) else insert k (dom (own_props obj)))"
  by (simp add: set_property_def)

lemma dom_fold_set_property:
  "dom (own_props (fold (\<lambda>(k, c) obj. set_property obj k (f c)) kvs obj)) =
     dom (own_props obj) \<union> (set (map fst kvs) - {ascii ''__proto__''})"
proof (induction kvs arbitrary: obj)
  case Nil
  show ?case by simp
next
  case (Cons kv kvs)
  obtain k c where kv: "kv = (k, c)"
    by (cases kv)
  have "dom (own_props (fold (\<lambda>(k, c) obj. set_property obj k (f c)) (kv # kvs) obj)) =
          dom (own_props (set_property obj k (f c))) \<union>
          (set (map fst kvs) - {ascii ''__proto__''})"
    using Cons [of "set_property obj k (f c)"] kv by simp
  also have "\<dots> = dom (own_props obj) \<union> (set (map fst (kv # kvs)) - {ascii ''__proto__''})"
    using kv by (auto simp: dom_set_property)
  finally show ?case .
qed

lemma timeBreakdown_keys:
  "dom (own_props (timeBreakdown analyses d)) =
     activity_type ` set analyses - {ascii ''__proto__''}"
  using dom_fold_set_property
    [of "breakdown_of d (totalCount analyses)" "fst (count_stats analyses)" empty_object]
  by (simp add: timeBreakdown_def activity_keys_first_seen first_seen_set empty_object_def)

lemma generateReport_try_fields:
  assumes "generateReport_try world analyses d = Inr r"
  shows "summary r \<noteq> JUndefined \<and> summary r \<noteq> JNull"
    and "time_breakdown r = timeBreakdown analyses d"
    and "productivity_score r = 0"
    and "suggestions r = []"
    and "generated_at r = now_iso world"
  using assms js_or_defined
  unfolding generateReport_try_def
  by (auto simp: try_bind_Inr_iff)

lemma generateReport_returns:
  "\<exists>r. generateReport world analyses d = Inr r \<and>
       summary r \<noteq> JUndefined \<and> summary r \<noteq> JNull \<and>
       time_breakdown r = timeBreakdown analyses d \<and>
       productivity_score r = 0 \<and> suggestions r = [] \<and> generated_at r = now_iso world"
proof (cases "generateReport_try world analyses d")
  case (Inl e)
  then show ?thesis
    by (simp add: generateReport_def generateReport_catch_def)
next
  case (Inr r)
  then have "generateReport world analyses d = Inr r"
    by (simp add: generateReport_def)
  with generateReport_try_fields [OF Inr] show ?thesis
    by simp
qed

lemma breakdown_60_3_2: "breakdown_of 60 3 2 = \<lparr>duration_minutes = 40, percentage = 67\<rparr>"
  by code_simp

lemma breakdown_60_3_1:
  "breakdown_of 60 3 (Suc 0) = \<lparr>duration_minutes = 20, percentage = 33\<rparr>"
  by code_simp

lemma Math_round_half_up: "Math_round (of_int n + 1 / 2) = n + 1"
  by (simp add: Math_round_def)

lemma activity_names_distinct:
  "ascii ''coding'' \<noteq> ascii ''browsing''"
  "ascii ''coding'' \<noteq> ascii ''__proto__''"
  "ascii ''browsing'' \<noteq> ascii ''__proto__''"
  "ascii ''gaming'' \<noteq> ascii ''__proto__''"
  "ascii ''gaming'' \<noteq> ascii ''coding''"
  by (simp_all add: ascii_def)

lemma timeBreakdown_eq:
  "timeBreakdown analyses d =
     fold (\<lambda>(activity, count) obj.
             set_property obj activity (breakdown_of d (totalCount analyses) count))
          (fold (\<lambda>k m. bump m k) (map activity_type analyses) []) empty_object"
  by (simp add: timeBreakdown_def count_stats_eq)

lemma timeBreakdown_coding_coding_browsing:
  assumes "map activity_type analyses = [ascii ''coding'', ascii ''coding'', ascii ''browsing'']"
  shows "timeBreakdown analyses 60 =
           \<lparr>own_props = [ascii ''coding'' \<mapsto> \<lparr>duration_minutes = 40, percentage = 67\<rparr>,
                         ascii ''browsing'' \<mapsto> \<lparr>duration_minutes = 20, percentage = 33\<rparr>],
            prototype = None\<rparr>"
proof -
  from assms have "length (map activity_type analyses) = 3"
    by simp
  then have total: "totalCount analyses = 3"
    by (simp add: totalCount_def)
  have stats: "fold (\<lambda>k m. bump m k) (map activity_type analyses) [] =
                 [(ascii ''coding'', 2), (ascii ''browsing'', 1)]"
    using activity_names_distinct by (simp add: assms bump_def Map_get_def)
  show ?thesis
    using activity_names_distinct
    by (simp add: timeBreakdown_eq total stats set_property_def empty_object_def
          breakdown_60_3_2 breakdown_60_3_1)
qed

lemma number_to_string_0: "number_to_string 0 = ascii ''0''"
  by (simp add: number_to_string.simps ascii_def)

lemma timeBreakdown_empty: "timeBreakdown [] d = empty_object"
  by (simp add: timeBreakdown_def count_stats_def)

lemma topApps_empty: "topApps [] = []"
  by (simp add: topApps_def count_stats_def)

lemma generateReport_try_failures:
  "(callOpenAI world (report_prompt analyses d) None = Inl e \<longrightarrow>
      generateReport_try world analyses d = Inl e) \<and>
   (callOpenAI world (report_prompt analyses d) None = Inr text \<and>
    JSON_parse world text = Inl e \<longrightarrow>
      generateReport_try world analyses d = Inl e)"
  by (simp add: generateReport_try_def)

lemma example_session_apps:
  "first_seen (map app_name example_session) =
     [ascii ''Code'', ascii ''Chrome'', ascii ''Slack'', ascii ''Figma'', ascii ''Zoom'',
      ascii ''Notion'']"
  by (simp add: example_session_def example_analysis_def ascii_def)

lemma number_to_string_60: "number_to_string 60 = ascii ''60''"
  by (simp add: number_to_string.simps ascii_def)

lemma number_to_string_7: "number_to_string 7 = ascii ''7''"
  by (simp add: number_to_string.simps ascii_def)

lemma digest_line_eq:
  "digest_line a =
     ascii ''['' @ app_name a @ ascii ''] '' @ description a @ ascii '': '' @
     take 200 (case detailed_content a of None \<Rightarrow> [] | Some t \<Rightarrow> t)"
  by (cases "detailed_content a") (simp_all add: digest_line_def)

lemma digest_line_fun:
  "digest_line =
     (\<lambda>a. ascii ''['' @ app_name a @ ascii ''] '' @ description a @ ascii '': '' @
          take 200 (case detailed_content a of None \<Rightarrow> [] | Some t \<Rightarrow> t))"
  by (rule ext) (rule digest_line_eq)

lemma contents_digest_input:
  "contents analyses =
     array_join [0x0A]
       (map (\<lambda>(app, descr, detail). ascii ''['' @ app @ ascii ''] '' @ descr @ ascii '': '' @ detail)
            (digest_input analyses))"
  by (simp add: contents_def digest_input_def digest_line_fun comp_def)

lemma callOpenAI_reply_text:
  "t \<noteq> [] \<Longrightarrow> callOpenAI (reply_world (one_choice t)) prompt img = Inr (JStr t)"
  by (simp add: callOpenAI_def reply_world_def one_choice_def first_choice_text_def
        opt_prop_def js_or_def sk_test_nonempty choices_key_facts)

text \<open>
  The rounding is the one intended: for a positive \<open>x\<close> the exponent \<open>ilog2 x\<close>
  brackets \<open>x\<close> between two powers of two, and \<open>fl x\<close> is a multiple \<open>m\<close> of
  \<open>2^(ilog2 x - 52)\<close> with a significand of 53 bits, at most half a unit in the last
  place away from \<open>x\<close>, with \<open>m\<close> even when it is exactly half a unit away.
\<close>

lemma pow2_powi: "pow2 e = 2 powi e"
  by (simp add: pow2_def power_int_def inverse_eq_divide power_one_over)

lemma pow2_pos: "0 < pow2 e"
  by (simp add: pow2_powi)

lemma pow2_add: "pow2 (a + b) = pow2 a * pow2 b"
  by (simp add: pow2_powi power_int_add)

lemma pow2_diff: "pow2 (a - b) = pow2 a / pow2 b"
  by (simp add: pow2_powi power_int_diff)

lemma pow2_nat: "0 \<le> e \<Longrightarrow> pow2 e = 2 ^ nat e"
  by (simp add: pow2_def)

lemma ilog2_bounds:
  assumes "0 < x"
  shows "pow2 (ilog2 x) \<le> x \<and> x < pow2 (ilog2 x + 1)"
proof -
  obtain a b where q: "quotient_of x = (a, b)"
    by (cases "quotient_of x")
  then have b: "0 < b" and x: "x = of_int a / of_int b"
    by (simp_all add: quotient_of_denom_pos quotient_of_div)
  with assms have a: "0 < a"
    by (simp add: zero_less_divide_iff)
  define la where "la = bitlen a"
  define lb where "lb = bitlen b"
  from bitlen_bounds [OF a] have a1: "2 ^ nat (la - 1) \<le> a" and a2: "a < 2 ^ nat la"
    by (simp_all add: la_def)
  from bitlen_bounds [OF b] have b1: "2 ^ nat (lb - 1) \<le> b" and b2: "b < 2 ^ nat lb"
    by (simp_all add: lb_def)
  have la: "1 \<le> la" and lb: "1 \<le> lb"
    using a b by (auto simp: la_def lb_def bitlen_alt_def)
  have ra1: "pow2 (la - 1) \<le> of_int a"
  proof -
    from a1 have "(of_int (2 ^ nat (la - 1)) :: rat) \<le> of_int a"
      by (simp only: of_int_le_iff)
    with la show ?thesis by (simp add: pow2_nat)
  qed
  have ra2: "of_int a < pow2 la"
  proof -
    from a2 have "(of_int a :: rat) < of_int (2 ^ nat la)"
      by (simp only: of_int_less_iff)
    with la show ?thesis by (simp add: pow2_nat)
  qed
  have rb1: "pow2 (lb - 1) \<le> of_int b"
  proof -
    from b1 have "(of_int (2 ^ nat (lb - 1)) :: rat) \<le> of_int b"
      by (simp only: of_int_le_iff)
    with lb show ?thesis by (simp add: pow2_nat)
  qed
  have rb2: "of_int b < pow2 lb"
  proof -
    from b2 have "(of_int b :: rat) < of_int (2 ^ nat lb)"
      by (simp only: of_int_less_iff)
    with lb show ?thesis by (simp add: pow2_nat)
  qed
  have bpos: "(0::rat) < of_int b" using b by simp
  have apos: "(0::rat) < of_int a" using a by simp
  have upper: "x < pow2 (la - lb + 1)"
  proof -
    have "x < pow2 la / of_int b"
      unfolding x using ra2 bpos by (simp add: divide_strict_right_mono)
    also have "\<dots> \<le> pow2 la / pow2 (lb - 1)"
      using rb1 pow2_pos [of la] pow2_pos [of "lb - 1"]
      by (simp add: frac_le)
    also have "\<dots> = pow2 (la - lb + 1)"
      using pow2_diff [of la "lb - 1"] by (simp add: algebra_simps)
    finally show ?thesis .
  qed
  have lower: "pow2 (la - lb - 1) \<le> x"
  proof -
    have "pow2 (la - lb - 1) = pow2 (la - 1) / pow2 lb"
      using pow2_diff [of "la - 1" lb] by (simp add: algebra_simps)
    also have "\<dots> \<le> of_int a / pow2 lb"
      using ra1 pow2_pos [of lb] by (simp add: divide_right_mono)
    also have "\<dots> \<le> of_int a / of_int b"
      using rb2 apos bpos by (simp add: frac_le)
    finally show ?thesis by (simp add: x)
  qed
  have il: "ilog2 x = (if pow2 (la - lb) \<le> x then la - lb else la - lb - 1)"
    by (simp add: ilog2_def q la_def lb_def Let_def)
  show ?thesis
  proof (cases "pow2 (la - lb) \<le> x")
    case True
    with il upper show ?thesis by simp
  next
    case False
    with il lower show ?thesis by simp
  qed
qed

lemma fl_nearest:
  assumes "0 < x"
  shows "\<exists>m. fl x = of_int m * pow2 (ilog2 x - 52) \<and>
             2 ^ 52 \<le> m \<and> m \<le> 2 ^ 53 \<and>
             \<bar>fl x - x\<bar> \<le> pow2 (ilog2 x - 52) / 2 \<and>
             (\<bar>fl x - x\<bar> = pow2 (ilog2 x - 52) / 2 \<longrightarrow> even m)"
proof -
  define e where "e = ilog2 x - 52"
  define s where "s = x / pow2 e"
  define n where "n = \<lfloor>s\<rfloor>"
  define r where "r = s - of_int n"
  define m where "m = (if r < 1 / 2 then n else if 1 / 2 < r then n + 1
              else if even n then n else n + 1)"
  have flx: "fl x = of_int m * pow2 e"
    using assms by (simp add: fl_def Let_def e_def s_def n_def r_def m_def)
  have pe: "0 < pow2 e" by (rule pow2_pos)
  have ie: "ilog2 x = e + 52" and ie': "ilog2 x + 1 = e + 53"
    by (simp_all add: e_def)
  from ilog2_bounds [OF assms]
  have "pow2 (e + 52) \<le> x" and "x < pow2 (e + 53)"
    unfolding ie' unfolding ie by blast+
  then have s1: "2 ^ 52 \<le> s" and s2: "s < 2 ^ 53"
    using pe by (simp_all add: s_def pow2_add pow2_nat pos_le_divide_eq pos_divide_less_eq mult.commute)
  have r0: "0 \<le> r" and r1: "r < 1"
    by (simp_all add: r_def n_def) linarith+
  from s1 have "(2 ^ 52 :: int) \<le> n"
    unfolding n_def by (simp add: le_floor_iff)
  moreover from s2 have "n < 2 ^ 53"
    unfolding n_def by (simp add: floor_less_iff)
  ultimately have m1: "2 ^ 52 \<le> m" and m2: "m \<le> 2 ^ 53"
    by (auto simp: m_def)
  have sm: "of_int m - s = (if r < 1 / 2 then - r else if 1 / 2 < r then 1 - r
              else if even n then - r else 1 - r)"
    by (simp add: m_def r_def)
  then have d: "\<bar>of_int m - s\<bar> \<le> 1 / 2"
    using r0 r1 by (auto split: if_splits)
  have tie: "\<bar>of_int m - s\<bar> = 1 / 2 \<longrightarrow> even m"
    using sm r0 r1 by (auto simp: m_def split: if_splits)
  have diff: "fl x - x = (of_int m - s) * pow2 e"
    using pe by (simp add: flx s_def algebra_simps)
  then have absd: "\<bar>fl x - x\<bar> = \<bar>of_int m - s\<bar> * pow2 e"
    using pe by (simp add: abs_mult)
  with d pe have "\<bar>fl x - x\<bar> \<le> pow2 e / 2"
    by (simp add: mult_right_mono)
  moreover have "\<bar>fl x - x\<bar> = pow2 e / 2 \<longrightarrow> even m"
    using absd tie pe by auto
  ultimately show ?thesis
    using flx m1 m2 unfolding e_def by blast
qed

text \<open>
  The value stored under a key of \<open>timeBreakdown\<close>: the entry computed from the
  number of analyses that carry this activity type.
\<close>

lemma map_of_Map_set: "map_of (Map_set m k v) = (map_of m)(k \<mapsto> v)"
  by (induction m) (auto simp: fun_eq_iff)

lemma map_of_bump:
  "map_of (bump m k) = (map_of m)(k \<mapsto> (case map_of m k of None \<Rightarrow> 0 | Some c \<Rightarrow> c) + 1)"
  by (simp add: bump_def Map_get_def map_of_Map_set)

lemma map_of_fold_bump:
  "map_of (fold (\<lambda>k m. bump m k) ks m) k =
     (if count_list ks k = 0 then map_of m k
      else Some ((case map_of m k of None \<Rightarrow> 0 | Some c \<Rightarrow> c) + count_list ks k))"
  by (induction ks arbitrary: m) (auto simp: map_of_bump split: option.splits)

lemma own_props_fold_set_property:
  assumes "distinct (map fst kvs)" and "k \<noteq> ascii ''__proto__''"
  shows "own_props (fold (\<lambda>(k, c) obj. set_property obj k (f c)) kvs obj) k =
           (case map_of kvs k of None \<Rightarrow> own_props obj k | Some c \<Rightarrow> Some (f c))"
  using assms
proof (induction kvs arbitrary: obj)
  case Nil
  show ?case by simp
next
  case (Cons kv kvs)
  obtain k' c' where kv: "kv = (k', c')"
    by (cases kv)
  from Cons.prems kv have d: "distinct (map fst kvs)" and fresh: "k' \<notin> fst ` set kvs"
    by auto
  from fresh have none: "map_of kvs k' = None"
    by (simp add: map_of_eq_None_iff)
  show ?case
    using Cons.IH [OF d Cons.prems(2), of "set_property obj k' (f c')"] kv none Cons.prems(2)
    by (auto simp: set_property_def split: option.splits)
qed

lemma timeBreakdown_value:
  assumes "k \<noteq> ascii ''__proto__''"
  shows "own_props (timeBreakdown analyses d) k =
           (if k \<in> activity_type ` set analyses
            then Some (breakdown_of d (totalCount analyses)
                         (count_list (map activity_type analyses) k))
            else None)"
proof -
  let ?stats = "fst (count_stats analyses)"
  have dist: "distinct (map fst ?stats)"
    by (simp add: activity_keys_first_seen first_seen_distinct)
  have look: "map_of ?stats k =
                (if count_list (map activity_type analyses) k = 0 then None
                 else Some (count_list (map activity_type analyses) k))"
    using map_of_fold_bump [of "map activity_type analyses" "[]" k]
    by (simp add: count_stats_eq)
  have mem: "count_list (map activity_type analyses) k = 0 \<longleftrightarrow>
               k \<notin> activity_type ` set analyses"
    by (simp add: count_list_0_iff)
  show ?thesis
    using own_props_fold_set_property
      [OF dist assms, of "breakdown_of d (totalCount analyses)" empty_object]
    by (simp add: timeBreakdown_def look mem empty_object_def)
qed

text \<open>
  The source on run-time records: on records of the declared type it is
  \<open>generateReport\<close>; it returns when the detailed content of each of the first 30
  records is a string, an array, \<open>undefined\<close> or \<open>null\<close>, and throws the
  TypeError of the digest otherwise.
\<close>

lemma try_map_all_Inr:
  "(\<And>x. x \<in> set xs \<Longrightarrow> f x = Inr (g x)) \<Longrightarrow> try_map f xs = Inr (map g xs)"
  by (induction xs) auto

lemma try_map_Inl:
  "x \<in> set xs \<Longrightarrow> f x = Inl e \<Longrightarrow> (\<And>y. y \<in> set xs \<Longrightarrow> f y = Inl e \<or> (\<exists>z. f y = Inr z)) \<Longrightarrow>
   try_map f xs = Inl e"
proof (induction xs)
  case Nil
  then show ?case by simp
next
  case (Cons a xs)
  show ?case
  proof (cases "f a")
    case (Inl e')
    with Cons.prems(3) [of a] have "e' = e" by auto
    with Inl show ?thesis by simp
  next
    case (Inr z)
    with Cons.prems(1,2) have "x \<in> set xs" by auto
    with Cons.IH Cons.prems(2,3) have "try_map f xs = Inl e" by auto
    with Inr show ?thesis by simp
  qed
qed

lemma try_map_Inr_iff:
  "(\<exists>ys. try_map f xs = Inr ys) \<longleftrightarrow> (\<forall>x \<in> set xs. \<exists>y. f x = Inr y)"
  by (induction xs) (auto simp: try_bind_Inr_iff)

lemma optional_slice_at_run_time:
  "optional_slice (case d of None \<Rightarrow> JUndefined | Some s \<Rightarrow> JStr s) =
     Inr (case d of None \<Rightarrow> JUndefined | Some s \<Rightarrow> JStr (take 200 s))"
  by (cases d) simp_all

lemma runtime_digest_line_at_run_time:
  "runtime_digest_line ToString (at_run_time a) = Inr (digest_line a)"
  by (cases "detailed_content a")
     (simp_all add: runtime_digest_line_def at_run_time_def digest_line_def js_or_def
        template_text_def)

lemma try_map_at_run_time:
  "try_map (runtime_digest_line ToString) (map at_run_time xs) = Inr (map digest_line xs)"
  by (induction xs) (simp_all add: runtime_digest_line_at_run_time)

lemma runtime_contents_at_run_time:
  "runtime_contents ToString (map at_run_time analyses) = Inr (contents analyses)"
  by (simp add: runtime_contents_def contents_def take_map try_map_at_run_time)

lemma count_stats_at_run_time: "count_stats (map at_run_time analyses) = count_stats analyses"
  by (simp add: count_stats_eq comp_def at_run_time_def)

lemma timeBreakdown_at_run_time:
  "timeBreakdown (map at_run_time analyses) d = timeBreakdown analyses d"
  by (simp add: timeBreakdown_def count_stats_at_run_time totalCount_def)

lemma generateReport_catch_at_run_time:
  "generateReport_catch world (map at_run_time analyses) d = generateReport_catch world analyses d"
  by (simp add: generateReport_catch_def fallback_summary_def topApps_def
        count_stats_at_run_time timeBreakdown_at_run_time)

lemma generateReport_runtime_try_at_run_time:
  "generateReport_runtime_try world (map at_run_time analyses) d (report_prompt analyses d) =
     generateReport_try world analyses d"
  by (simp add: generateReport_runtime_try_def generateReport_try_def timeBreakdown_at_run_time)

lemma generateReport_runtime_declared:
  "generateReport_runtime ToString world (map at_run_time analyses) d =
     generateReport world analyses d"
proof -
  have "generateReport_runtime ToString world (map at_run_time analyses) d =
          (case generateReport_runtime_try world (map at_run_time analyses) d
                  (report_prompt analyses d) of
             Inr r \<Rightarrow> Inr r
           | Inl error \<Rightarrow> Inr (generateReport_catch world (map at_run_time analyses) d))"
    by (simp add: generateReport_runtime_def runtime_contents_at_run_time report_prompt_def)
  also have "\<dots> = generateReport world analyses d"
    unfolding generateReport_runtime_try_at_run_time generateReport_catch_at_run_time
    by (simp add: generateReport_def)
  finally show ?thesis .
qed

lemma optional_slice_cases:
  "(sliceable v \<longrightarrow> (\<exists>w. optional_slice v = Inr w)) \<and>
   (\<not> sliceable v \<longrightarrow>
      optional_slice v = Inl (ErrorObj (ascii ''a.detailed_content?.slice is not a function'')))"
  by (cases v) (simp_all add: sliceable_def)

lemma runtime_digest_line_cases:
  "(sliceable (detailed_content a) \<longrightarrow> (\<exists>l. runtime_digest_line ToString a = Inr l)) \<and>
   (\<not> sliceable (detailed_content a) \<longrightarrow>
      runtime_digest_line ToString a =
        Inl (ErrorObj (ascii ''a.detailed_content?.slice is not a function'')))"
  using optional_slice_cases [of "detailed_content a"]
  by (auto simp: runtime_digest_line_def)

lemma runtime_contents_cases:
  "((\<forall>a \<in> set (take 30 analyses). sliceable (detailed_content a)) \<longrightarrow>
      (\<exists>c. runtime_contents ToString analyses = Inr c)) \<and>
   (\<not> (\<forall>a \<in> set (take 30 analyses). sliceable (detailed_content a)) \<longrightarrow>
      runtime_contents ToString analyses =
        Inl (ErrorObj (ascii ''a.detailed_content?.slice is not a function'')))"
proof (intro conjI impI)
  assume ok: "\<forall>a \<in> set (take 30 analyses). sliceable (detailed_content a)"
  then have "\<forall>a \<in> set (take 30 analyses). \<exists>l. runtime_digest_line ToString a = Inr l"
    using runtime_digest_line_cases by blast
  then obtain ls where "try_map (runtime_digest_line ToString) (take 30 analyses) = Inr ls"
    using try_map_Inr_iff [of "runtime_digest_line ToString" "take 30 analyses"] by blast
  then show "\<exists>c. runtime_contents ToString analyses = Inr c"
    by (simp add: runtime_contents_def)
next
  assume "\<not> (\<forall>a \<in> set (take 30 analyses). sliceable (detailed_content a))"
  then obtain a where a: "a \<in> set (take 30 analyses)" and bad: "\<not> sliceable (detailed_content a)"
    by blast
  let ?e = "ErrorObj (ascii ''a.detailed_content?.slice is not a function'')"
  from bad have "runtime_digest_line ToString a = Inl ?e"
    using runtime_digest_line_cases by blast
  moreover have "\<And>y. y \<in> set (take 30 analyses) \<Longrightarrow>
      runtime_digest_line ToString y = Inl ?e \<or> (\<exists>z. runtime_digest_line ToString y = Inr z)"
    using runtime_digest_line_cases by blast
  ultimately have "try_map (runtime_digest_line ToString) (take 30 analyses) = Inl ?e"
    using a by (rule try_map_Inl [rotated])
  then show "runtime_contents ToString analyses = Inl ?e"
    by (simp add: runtime_contents_def)
qed

lemma generateReport_runtime_cases:
  "((\<forall>a \<in> set (take 30 analyses). sliceable (detailed_content a)) \<longrightarrow>
      (\<exists>r. generateReport_runtime ToString world analyses d = Inr r)) \<and>
   (\<not> (\<forall>a \<in> set (take 30 analyses). sliceable (detailed_content a)) \<longrightarrow>
      generateReport_runtime ToString world analyses d =
        Inl (ErrorObj (ascii ''a.detailed_content?.slice is not a function'')))"
proof (intro conjI impI)
  assume "\<forall>a \<in> set (take 30 analyses). sliceable (detailed_content a)"
  then obtain c where "runtime_contents ToString analyses = Inr c"
    using runtime_contents_cases [of analyses ToString] by blast
  then show "\<exists>r. generateReport_runtime ToString world analyses d = Inr r"
    by (simp add: generateReport_runtime_def split: sum.splits)
next
  assume "\<not> (\<forall>a \<in> set (take 30 analyses). sliceable (detailed_content a))"
  then have "runtime_contents ToString analyses =
        Inl (ErrorObj (ascii ''a.detailed_content?.slice is not a function''))"
    using runtime_contents_cases [of analyses ToString] by blast
  then show "generateReport_runtime ToString world analyses d =
        Inl (ErrorObj (ascii ''a.detailed_content?.slice is not a function''))"
    by (simp add: generateReport_runtime_def)
qed

lemma flag_text_facts: "flag_text \<noteq> []" "flag_text \<noteq> ascii ''{}''"
  by (simp_all add: flag_text_def ascii_def)

lemma callOpenAI_flag_world: "callOpenAI flag_world prompt img = Inr (JStr flag_text)"
  by (simp add: callOpenAI_def flag_world_def one_choice_def first_choice_text_def
        opt_prop_def js_or_def sk_test_nonempty choices_key_facts flag_text_facts)

lemma analyzeScreenshot_flag_world:
  "analyzeScreenshot flag_world img =
     Inr \<lparr>app_name = JStr (ascii ''Unknown''),
          activity_type = JStr (ascii ''other''),
          description = JStr [],
          detailed_content = JBool True,
          tags = [],
          confidence = fl (4 / 5),
          raw_response = JStr flag_text\<rparr>"
proof -
  have parse: "JSON_parse flag_world (JStr flag_text) =
                 Inr (JObj [(ascii ''detailed_content'', JBool True)])"
    by (simp add: flag_world_def)
  have keys: "ascii ''detailed_content'' \<noteq> ascii ''app_name''"
    "ascii ''detailed_content'' \<noteq> ascii ''activity_type''"
    "ascii ''detailed_content'' \<noteq> ascii ''description''"
    by (simp_all add: ascii_def)
  have other: "validateActivityType JUndefined = JStr (ascii ''other'')"
    by (simp add: validateActivityType_def image_iff)
  show ?thesis
    using keys
    by (simp add: analyzeScreenshot_def analyzeScreenshot_try_def callOpenAI_flag_world parse
          js_or_def other)
qed

lemma generateReport_try_success:
  assumes "generateReport_try world analyses d = Inr r"
  shows "\<exists>text result s.
           callOpenAI world (report_prompt analyses d) None = Inr text \<and>
           JSON_parse world text = Inr result \<and>
           get_prop result (ascii ''summary'') = Inr s \<and>
           summary r = (if truthy s then s else JStr default_summary)"
  using assms unfolding generateReport_try_def
  by (auto simp: try_bind_Inr_iff js_or_def)

subsection \<open>The category validator\<close>

text \<open>
  C7. \<open>validateActivityType\<close> is a total function with no failure case. A string of
  the closed enumeration is returned unchanged, every other string gives \<open>other\<close>, and
  validating twice is the same as validating once (for every value, so for every string).
\<close>

theorem validateActivityType_total_idempotent:
  "(s \<in> set validTypes \<longrightarrow> validateActivityType (JStr s) = JStr s) \<and>
   (s \<notin> set validTypes \<longrightarrow> validateActivityType (JStr s) = JStr (ascii ''other'')) \<and>
   validateActivityType (validateActivityType v) = validateActivityType v"
  using other_valid by (auto simp: validateActivityType_def)

theorem validateActivityType_total_idempotent_witness:
  "validateActivityType (JStr (ascii ''coding'')) = JStr (ascii ''coding'') \<and>
   validateActivityType (JStr (ascii ''gaming'')) = JStr (ascii ''other'') \<and>
   validateActivityType (validateActivityType (JStr (ascii ''gaming''))) =
     validateActivityType (JStr (ascii ''gaming''))"
proof -
  note a = validateActivityType_total_idempotent
             [of "ascii ''coding''" "JStr (ascii ''gaming'')"]
  note b = validateActivityType_total_idempotent
             [of "ascii ''gaming''" "JStr (ascii ''gaming'')"]
  from a coding_valid
  have 1: "validateActivityType (JStr (ascii ''coding'')) = JStr (ascii ''coding'')"
    by blast
  from b gaming_invalid
  have 2: "validateActivityType (JStr (ascii ''gaming'')) = JStr (ascii ''other'')"
    by blast
  from b
  have 3: "validateActivityType (validateActivityType (JStr (ascii ''gaming''))) =
            validateActivityType (JStr (ascii ''gaming''))"
    by blast
  from 1 2 3 show ?thesis by blast
qed

subsection \<open>The analyzer\<close>

text \<open>
  C8. Whatever the endpoint and the parser do, \<open>analyzeScreenshot\<close> returns a record,
  and the \<open>activity_type\<close> of that record is one of the eight strings of the closed
  enumeration, on the success path (through \<open>validateActivityType\<close>) and on the
  fallback path (the literal \<open>other\<close>).
\<close>

theorem analyzeScreenshot_activity_type_closed:
  "\<exists>r. analyzeScreenshot world imageBase64 = Inr r \<and>
       activity_type r \<in>
         {JStr (ascii ''coding''), JStr (ascii ''browsing''), JStr (ascii ''documentation''),
          JStr (ascii ''communication''), JStr (ascii ''meeting''), JStr (ascii ''design''),
          JStr (ascii ''entertainment''), JStr (ascii ''other'')}"
proof (cases "analyzeScreenshot_try world imageBase64")
  case (Inl e)
  then have "analyzeScreenshot world imageBase64 = Inr (analyzeScreenshot_catch e)"
    by (simp add: analyzeScreenshot_def)
  then show ?thesis
    by (simp add: analyzeScreenshot_catch_fields)
next
  case (Inr r)
  then have "analyzeScreenshot world imageBase64 = Inr r"
    by (simp add: analyzeScreenshot_def)
  moreover from Inr have "activity_type r \<in> JStr ` set validTypes"
    by (rule analyzeScreenshot_try_fields)
  ultimately show ?thesis
    unfolding validTypes_enumeration by blast
qed

theorem analyzeScreenshot_activity_type_closed_witness:
  "\<exists>r. analyzeScreenshot offline_world (ascii ''aGVsbG8='') = Inr r \<and>
       activity_type r \<in>
         {JStr (ascii ''coding''), JStr (ascii ''browsing''), JStr (ascii ''documentation''),
          JStr (ascii ''communication''), JStr (ascii ''meeting''), JStr (ascii ''design''),
          JStr (ascii ''entertainment''), JStr (ascii ''other'')}"
  by (rule analyzeScreenshot_activity_type_closed [of offline_world "ascii ''aGVsbG8=''"])

text \<open>
  C3. When the \<open>try\<close> block of \<open>analyzeScreenshot\<close> throws \<open>e\<close>, the result is
  the fallback record: \<open>Unknown\<close>, \<open>other\<close>, the fixed prefix followed by the first
  50 code units of the message of \<open>e\<close>, the whole message as \<open>detailed_content\<close>
  and as \<open>raw_response\<close>, no tags, confidence 0. When the block returns, the confidence
  is the number written \<open>0.8\<close>, which is not 0; so the confidence of the result is 0
  exactly when the fallback path was taken. A missing credential, a rejected \<open>fetch\<close>,
  a response that is not \<open>ok\<close> and text that \<open>JSON.parse\<close> rejects each make the
  block throw.
\<close>

theorem analyzeScreenshot_fallback_record:
  "(analyzeScreenshot_try world img = Inl e \<longrightarrow>
      analyzeScreenshot world img =
        Inr \<lparr>app_name = JStr (ascii ''Unknown''),
             activity_type = JStr (ascii ''other''),
             description = JStr (failure_prefix @ take 50 (error_message e)),
             detailed_content = JStr (error_message e),
             tags = [],
             confidence = 0,
             raw_response = JStr (error_message e)\<rparr>) \<and>
   (analyzeScreenshot_try world img = Inr r \<longrightarrow>
      analyzeScreenshot world img = Inr r \<and> confidence r = fl (4 / 5)) \<and>
   fl (4 / 5) = 3602879701896397 / 4503599627370496 \<and>
   (analyzeScreenshot world img = Inr r \<longrightarrow>
      (confidence r = 0 \<longleftrightarrow> (\<exists>e'. analyzeScreenshot_try world img = Inl e'))) \<and>
   ((OPENAI_API_KEY world = None \<or> OPENAI_API_KEY world = Some []) \<longrightarrow>
      analyzeScreenshot_try world img =
        Inl (ErrorObj (ascii ''OPENAI_API_KEY is not configured''))) \<and>
   (OPENAI_API_KEY world = Some key \<and> key \<noteq> [] \<and>
    fetch world (build_request key (build_messages analyze_prompt (Some img))) = Inl e \<longrightarrow>
      analyzeScreenshot_try world img = Inl e) \<and>
   (OPENAI_API_KEY world = Some key \<and> key \<noteq> [] \<and>
    fetch world (build_request key (build_messages analyze_prompt (Some img))) = Inr resp \<and>
    \<not> resp_ok resp \<and> resp_text resp = Inr body \<longrightarrow>
      analyzeScreenshot_try world img =
        Inl (ErrorObj (ascii ''OpenAI API error: '' @ body))) \<and>
   (callOpenAI world analyze_prompt (Some img) = Inr text \<and>
    JSON_parse world text = Inl e \<longrightarrow>
      analyzeScreenshot_try world img = Inl e)"
proof (intro conjI impI)
  assume "analyzeScreenshot_try world img = Inl e"
  then show "analyzeScreenshot world img =
        Inr \<lparr>app_name = JStr (ascii ''Unknown''),
             activity_type = JStr (ascii ''other''),
             description = JStr (failure_prefix @ take 50 (error_message e)),
             detailed_content = JStr (error_message e),
             tags = [],
             confidence = 0,
             raw_response = JStr (error_message e)\<rparr>"
    by (simp add: analyzeScreenshot_def analyzeScreenshot_catch_fields)
next
  assume "analyzeScreenshot_try world img = Inr r"
  then show "analyzeScreenshot world img = Inr r"
    by (simp add: analyzeScreenshot_def)
next
  assume "analyzeScreenshot_try world img = Inr r"
  then show "confidence r = fl (4 / 5)"
    by (rule analyzeScreenshot_try_fields)
next
  show "fl (4 / 5) = 3602879701896397 / 4503599627370496"
    by (rule confidence_literal)
next
  assume res: "analyzeScreenshot world img = Inr r"
  show "confidence r = 0 \<longleftrightarrow> (\<exists>e'. analyzeScreenshot_try world img = Inl e')"
  proof (cases "analyzeScreenshot_try world img")
    case (Inl e')
    with res have "r = analyzeScreenshot_catch e'"
      by (simp add: analyzeScreenshot_def)
    with Inl show ?thesis
      by (simp add: analyzeScreenshot_catch_fields)
  next
    case (Inr r')
    with res have "r = r'"
      by (simp add: analyzeScreenshot_def)
    with Inr have "confidence r = fl (4 / 5)"
      using analyzeScreenshot_try_fields(2) by blast
    with Inr show ?thesis
      using confidence_literal_nonzero by simp
  qed
next
  assume "OPENAI_API_KEY world = None \<or> OPENAI_API_KEY world = Some []"
  then have "callOpenAI world analyze_prompt (Some img) =
        Inl (ErrorObj (ascii ''OPENAI_API_KEY is not configured''))"
    by (rule callOpenAI_no_key)
  then show "analyzeScreenshot_try world img =
        Inl (ErrorObj (ascii ''OPENAI_API_KEY is not configured''))"
    by (simp add: analyzeScreenshot_try_def)
next
  assume "OPENAI_API_KEY world = Some key \<and> key \<noteq> [] \<and>
    fetch world (build_request key (build_messages analyze_prompt (Some img))) = Inl e"
  then have "callOpenAI world analyze_prompt (Some img) = Inl e"
    by (simp add: callOpenAI_fetch)
  then show "analyzeScreenshot_try world img = Inl e"
    by (simp add: analyzeScreenshot_try_def)
next
  assume "OPENAI_API_KEY world = Some key \<and> key \<noteq> [] \<and>
    fetch world (build_request key (build_messages analyze_prompt (Some img))) = Inr resp \<and>
    \<not> resp_ok resp \<and> resp_text resp = Inr body"
  then have "callOpenAI world analyze_prompt (Some img) =
      Inl (ErrorObj (ascii ''OpenAI API error: '' @ body))"
    by (simp add: callOpenAI_fetch)
  then show "analyzeScreenshot_try world img =
        Inl (ErrorObj (ascii ''OpenAI API error: '' @ body))"
    by (simp add: analyzeScreenshot_try_def)
next
  assume "callOpenAI world analyze_prompt (Some img) = Inr text \<and>
    JSON_parse world text = Inl e"
  then show "analyzeScreenshot_try world img = Inl e"
    by (simp add: analyzeScreenshot_try_def)
qed

theorem analyzeScreenshot_fallback_record_witness:
  "analyzeScreenshot offline_world (ascii ''aGVsbG8='') =
     Inr \<lparr>app_name = JStr (ascii ''Unknown''),
          activity_type = JStr (ascii ''other''),
          description = JStr (failure_prefix @ ascii ''OPENAI_API_KEY is not configured''),
          detailed_content = JStr (ascii ''OPENAI_API_KEY is not configured''),
          tags = [],
          confidence = 0,
          raw_response = JStr (ascii ''OPENAI_API_KEY is not configured'')\<rparr> \<and>
   analyzeScreenshot
       (refusing_world (ascii ''insufficient quota for the current billing period''))
       (ascii ''aGVsbG8='') =
     Inr \<lparr>app_name = JStr (ascii ''Unknown''),
          activity_type = JStr (ascii ''other''),
          description =
            JStr (failure_prefix @ ascii ''OpenAI API error: insufficient quota for the curre''),
          detailed_content =
            JStr (ascii ''OpenAI API error: insufficient quota for the current billing period''),
          tags = [],
          confidence = 0,
          raw_response =
            JStr (ascii ''OpenAI API error: insufficient quota for the current billing period'')\<rparr> \<and>
   (\<exists>r. analyzeScreenshot (reply_world no_choice) (ascii ''aGVsbG8='') = Inr r \<and>
        confidence r = 3602879701896397 / 4503599627370496 \<and> confidence r \<noteq> 0)"
proof -
  let ?img = "ascii ''aGVsbG8=''"
  let ?body = "ascii ''insufficient quota for the current billing period''"
  let ?k = "ascii ''sk-test''"
  let ?resp = "\<lparr>resp_ok = False, resp_text = Inr ?body,
                 resp_json = Inl (ErrorObj (ascii ''Unexpected token''))\<rparr>"
  have k: "?k \<noteq> []" by (simp add: ascii_def)
  note a = analyzeScreenshot_fallback_record
             [of offline_world ?img "ErrorObj (ascii ''OPENAI_API_KEY is not configured'')"]
  have a_try: "analyzeScreenshot_try offline_world ?img =
                 Inl (ErrorObj (ascii ''OPENAI_API_KEY is not configured''))"
    using a by (simp add: offline_world_def)
  have 1: "analyzeScreenshot offline_world ?img =
     Inr \<lparr>app_name = JStr (ascii ''Unknown''),
          activity_type = JStr (ascii ''other''),
          description = JStr (failure_prefix @ ascii ''OPENAI_API_KEY is not configured''),
          detailed_content = JStr (ascii ''OPENAI_API_KEY is not configured''),
          tags = [],
          confidence = 0,
          raw_response = JStr (ascii ''OPENAI_API_KEY is not configured'')\<rparr>"
    using a a_try by (simp add: ascii_def)
  note b = analyzeScreenshot_fallback_record
             [of "refusing_world ?body" ?img
                 "ErrorObj (ascii ''OpenAI API error: '' @ ?body)" _ ?k ?resp ?body]
  have b_try: "analyzeScreenshot_try (refusing_world ?body) ?img =
                 Inl (ErrorObj (ascii ''OpenAI API error: '' @ ?body))"
    using b k by (simp add: refusing_world_def)
  have 2: "analyzeScreenshot (refusing_world ?body) ?img =
     Inr \<lparr>app_name = JStr (ascii ''Unknown''),
          activity_type = JStr (ascii ''other''),
          description =
            JStr (failure_prefix @ ascii ''OpenAI API error: insufficient quota for the curre''),
          detailed_content =
            JStr (ascii ''OpenAI API error: insufficient quota for the current billing period''),
          tags = [],
          confidence = 0,
          raw_response =
            JStr (ascii ''OpenAI API error: insufficient quota for the current billing period'')\<rparr>"
    using b b_try by (simp add: ascii_def)
  obtain r where r: "analyzeScreenshot_try (reply_world no_choice) ?img = Inr r"
    by (simp add: analyzeScreenshot_try_def callOpenAI_reply_no_choice
          JSON_parse_reply_world)
  note c = analyzeScreenshot_fallback_record [of "reply_world no_choice" ?img _ r]
  from c r have c1: "analyzeScreenshot (reply_world no_choice) ?img = Inr r"
    and c2: "confidence r = fl (4 / 5)"
    and c3: "fl (4 / 5) = 3602879701896397 / 4503599627370496"
    by blast+
  from c2 c3 have c4: "confidence r = 3602879701896397 / 4503599627370496"
    by (rule trans)
  then have c5: "confidence r \<noteq> 0"
    by simp
  from c1 c4 c5 have 3: "\<exists>r. analyzeScreenshot (reply_world no_choice) ?img = Inr r \<and>
        confidence r = 3602879701896397 / 4503599627370496 \<and> confidence r \<noteq> 0"
    by blast
  from 1 2 3 show ?thesis by blast
qed

subsection \<open>The external model caller\<close>

text \<open>
  C9. \<open>callOpenAI\<close> throws the configuration error when the credential is missing or
  empty, whatever \<open>fetch\<close> would do; on a response that is not \<open>ok\<close> it throws an
  error whose message is \<open>OpenAI API error: \<close> followed by the body text; on an
  \<open>ok\<close> response with JSON \<open>data\<close> it returns \<open>first_choice_text data\<close>, which
  for a body of the declared shape (an object with an array \<open>choices\<close>) is the text of
  the first choice's message when that is a non-empty string, and the text \<open>{}\<close> when
  there is no choice, no message, no content or an empty content.
\<close>

theorem callOpenAI_contract:
  "((OPENAI_API_KEY world = None \<or> OPENAI_API_KEY world = Some []) \<longrightarrow>
      callOpenAI world prompt img =
        Inl (ErrorObj (ascii ''OPENAI_API_KEY is not configured''))) \<and>
   (OPENAI_API_KEY world = Some key \<and> key \<noteq> [] \<and>
    fetch world (build_request key (build_messages prompt img)) = Inr resp \<and>
    \<not> resp_ok resp \<and> resp_text resp = Inr body \<longrightarrow>
      callOpenAI world prompt img = Inl (ErrorObj (ascii ''OpenAI API error: '' @ body))) \<and>
   (OPENAI_API_KEY world = Some key \<and> key \<noteq> [] \<and>
    fetch world (build_request key (build_messages prompt img)) = Inr resp \<and>
    resp_ok resp \<and> resp_json resp = Inr data \<longrightarrow>
      callOpenAI world prompt img = first_choice_text data) \<and>
   (map_of ps (ascii ''choices'') = Some (JArr (JObj cp # rest)) \<and>
    map_of cp (ascii ''message'') = Some (JObj mp) \<and>
    map_of mp (ascii ''content'') = Some (JStr t) \<and> t \<noteq> [] \<longrightarrow>
      first_choice_text (JObj ps) = Inr (JStr t)) \<and>
   (map_of ps (ascii ''choices'') = Some (JArr []) \<longrightarrow>
      first_choice_text (JObj ps) = Inr (JStr (ascii ''{}''))) \<and>
   (map_of ps (ascii ''choices'') = Some (JArr (JObj cp # rest)) \<and>
    map_of cp (ascii ''message'') = None \<longrightarrow>
      first_choice_text (JObj ps) = Inr (JStr (ascii ''{}''))) \<and>
   (map_of ps (ascii ''choices'') = Some (JArr (JObj cp # rest)) \<and>
    map_of cp (ascii ''message'') = Some (JObj mp) \<and>
    (map_of mp (ascii ''content'') = None \<or> map_of mp (ascii ''content'') = Some (JStr [])) \<longrightarrow>
      first_choice_text (JObj ps) = Inr (JStr (ascii ''{}'')))"
proof (intro conjI impI)
  assume "OPENAI_API_KEY world = None \<or> OPENAI_API_KEY world = Some []"
  then show "callOpenAI world prompt img =
        Inl (ErrorObj (ascii ''OPENAI_API_KEY is not configured''))"
    by (rule callOpenAI_no_key)
next
  assume "OPENAI_API_KEY world = Some key \<and> key \<noteq> [] \<and>
    fetch world (build_request key (build_messages prompt img)) = Inr resp \<and>
    \<not> resp_ok resp \<and> resp_text resp = Inr body"
  then show "callOpenAI world prompt img = Inl (ErrorObj (ascii ''OpenAI API error: '' @ body))"
    by (simp add: callOpenAI_fetch)
next
  assume "OPENAI_API_KEY world = Some key \<and> key \<noteq> [] \<and>
    fetch world (build_request key (build_messages prompt img)) = Inr resp \<and>
    resp_ok resp \<and> resp_json resp = Inr data"
  then show "callOpenAI world prompt img = first_choice_text data"
    by (simp add: callOpenAI_fetch)
next
  assume "map_of ps (ascii ''choices'') = Some (JArr (JObj cp # rest)) \<and>
    map_of cp (ascii ''message'') = Some (JObj mp) \<and>
    map_of mp (ascii ''content'') = Some (JStr t) \<and> t \<noteq> []"
  then show "first_choice_text (JObj ps) = Inr (JStr t)"
    by (simp add: first_choice_text_object opt_prop_def js_or_def)
next
  assume "map_of ps (ascii ''choices'') = Some (JArr [])"
  then show "first_choice_text (JObj ps) = Inr (JStr (ascii ''{}''))"
    by (simp add: first_choice_text_object)
next
  assume "map_of ps (ascii ''choices'') = Some (JArr (JObj cp # rest)) \<and>
    map_of cp (ascii ''message'') = None"
  then show "first_choice_text (JObj ps) = Inr (JStr (ascii ''{}''))"
    by (simp add: first_choice_text_object opt_prop_def js_or_def)
next
  assume "map_of ps (ascii ''choices'') = Some (JArr (JObj cp # rest)) \<and>
    map_of cp (ascii ''message'') = Some (JObj mp) \<and>
    (map_of mp (ascii ''content'') = None \<or> map_of mp (ascii ''content'') = Some (JStr []))"
  then show "first_choice_text (JObj ps) = Inr (JStr (ascii ''{}''))"
    by (auto simp: first_choice_text_object opt_prop_def js_or_def)
qed

theorem callOpenAI_contract_witness:
  "callOpenAI offline_world (ascii ''hello'') None =
     Inl (ErrorObj (ascii ''OPENAI_API_KEY is not configured'')) \<and>
   callOpenAI (refusing_world (ascii ''quota exceeded'')) (ascii ''hello'') None =
     Inl (ErrorObj (ascii ''OpenAI API error: '' @ ascii ''quota exceeded'')) \<and>
   callOpenAI (reply_world (one_choice (ascii ''hi''))) (ascii ''hello'') None =
     Inr (JStr (ascii ''hi'')) \<and>
   callOpenAI (reply_world no_choice) (ascii ''hello'') None = Inr (JStr (ascii ''{}''))"
proof -
  let ?p = "ascii ''hello''"
  let ?k = "ascii ''sk-test''"
  let ?req = "build_request ?k (build_messages ?p None)"
  have k: "?k \<noteq> []" by (simp add: ascii_def)
  have hi: "ascii ''hi'' \<noteq> []" by (simp add: ascii_def)
  have 1: "callOpenAI offline_world ?p None =
     Inl (ErrorObj (ascii ''OPENAI_API_KEY is not configured''))"
    using callOpenAI_contract [of offline_world ?p None]
    by (simp add: offline_world_def)
  have 2: "callOpenAI (refusing_world (ascii ''quota exceeded'')) ?p None =
     Inl (ErrorObj (ascii ''OpenAI API error: '' @ ascii ''quota exceeded''))"
    using k callOpenAI_contract [of "refusing_world (ascii ''quota exceeded'')" ?p None ?k
        "\<lparr>resp_ok = False, resp_text = Inr (ascii ''quota exceeded''),
          resp_json = Inl (ErrorObj (ascii ''Unexpected token''))\<rparr>" "ascii ''quota exceeded''"]
    by (simp add: refusing_world_def)
  have 3: "callOpenAI (reply_world (one_choice (ascii ''hi''))) ?p None =
             first_choice_text (one_choice (ascii ''hi''))"
    using k callOpenAI_contract [of "reply_world (one_choice (ascii ''hi''))" ?p None ?k
        "\<lparr>resp_ok = True, resp_text = Inr [], resp_json = Inr (one_choice (ascii ''hi''))\<rparr>"
        "[]" "one_choice (ascii ''hi'')"]
    by (simp add: reply_world_def)
  have 4: "first_choice_text (one_choice (ascii ''hi'')) = Inr (JStr (ascii ''hi''))"
    using hi callOpenAI_contract [of offline_world ?p None "[]" "\<lparr>resp_ok = True, resp_text = Inr [], resp_json = Inr JNull\<rparr>"
        "[]" JNull
        "[(ascii ''choices'',
            JArr [JObj [(ascii ''message'', JObj [(ascii ''content'', JStr (ascii ''hi''))])]])]"
        "[(ascii ''message'', JObj [(ascii ''content'', JStr (ascii ''hi''))])]" "[]"
        "[(ascii ''content'', JStr (ascii ''hi''))]" "ascii ''hi''"]
    by (simp add: one_choice_def)
  have 5: "callOpenAI (reply_world no_choice) ?p None = first_choice_text no_choice"
    using k callOpenAI_contract [of "reply_world no_choice" ?p None ?k
        "\<lparr>resp_ok = True, resp_text = Inr [], resp_json = Inr no_choice\<rparr>"
        "[]" no_choice]
    by (simp add: reply_world_def)
  have 6: "first_choice_text no_choice = Inr (JStr (ascii ''{}''))"
    using callOpenAI_contract [of offline_world ?p None "[]" "\<lparr>resp_ok = True, resp_text = Inr [], resp_json = Inr JNull\<rparr>"
        "[]" JNull "[(ascii ''choices'', JArr [])]"]
    by (simp add: no_choice_def)
  from 1 2 3 4 5 6 show ?thesis by simp
qed

subsection \<open>The reporter\<close>

text \<open>
  C2. For three analyses with the activity types coding, coding, browsing and a session
  of 60 minutes, \<open>generateReport\<close> returns, on either path, a report whose
  \<open>time_breakdown\<close> has exactly the keys coding and browsing, coding with 40 minutes and
  67 percent, browsing with 20 minutes and 33 percent. \<open>Math.round\<close> rounds a half up.
\<close>

theorem generateReport_breakdown_example:
  assumes "map activity_type analyses = [ascii ''coding'', ascii ''coding'', ascii ''browsing'']"
  shows "\<exists>r. generateReport world analyses 60 = Inr r \<and>
             own_props (time_breakdown r) (ascii ''coding'') =
               Some \<lparr>duration_minutes = 40, percentage = 67\<rparr> \<and>
             own_props (time_breakdown r) (ascii ''browsing'') =
               Some \<lparr>duration_minutes = 20, percentage = 33\<rparr> \<and>
             dom (own_props (time_breakdown r)) = {ascii ''coding'', ascii ''browsing''} \<and>
             Math_round (of_int n + 1 / 2) = n + 1"
proof -
  obtain r where r: "generateReport world analyses 60 = Inr r"
    and tb: "time_breakdown r = timeBreakdown analyses 60"
    using generateReport_returns [of world analyses 60] by blast
  have rounding: "Math_round (of_int n + 1 / 2) = n + 1"
    by (rule Math_round_half_up)
  from tb timeBreakdown_coding_coding_browsing [OF assms] activity_names_distinct
  have "own_props (time_breakdown r) (ascii ''coding'') =
               Some \<lparr>duration_minutes = 40, percentage = 67\<rparr> \<and>
        own_props (time_breakdown r) (ascii ''browsing'') =
               Some \<lparr>duration_minutes = 20, percentage = 33\<rparr> \<and>
        dom (own_props (time_breakdown r)) = {ascii ''coding'', ascii ''browsing''}"
    by auto
  with r rounding show ?thesis by blast
qed

theorem generateReport_breakdown_example_witness:
  "\<exists>r. generateReport offline_world
          [example_analysis ''VS Code'' ''coding'', example_analysis ''Vim'' ''coding'',
           example_analysis ''Chrome'' ''browsing''] 60 = Inr r \<and>
       own_props (time_breakdown r) (ascii ''coding'') =
         Some \<lparr>duration_minutes = 40, percentage = 67\<rparr> \<and>
       own_props (time_breakdown r) (ascii ''browsing'') =
         Some \<lparr>duration_minutes = 20, percentage = 33\<rparr>"
proof -
  have "map activity_type
          [example_analysis ''VS Code'' ''coding'', example_analysis ''Vim'' ''coding'',
           example_analysis ''Chrome'' ''browsing''] =
        [ascii ''coding'', ascii ''coding'', ascii ''browsing'']"
    by (simp add: example_analysis_def)
  from generateReport_breakdown_example [OF this, of offline_world]
  show ?thesis by blast
qed

text \<open>
  C4, as the code has it. For no analyses and duration 0 the divisor \<open>totalCount\<close> is
  1 (it is positive for every input) and the report is returned with an empty
  \<open>time_breakdown\<close>. When the \<open>try\<close> block throws, the summary is the template
  with 0 minutes and 0 records. When it returns, the prompt that was sent has the two
  zeros, and the summary is the \<open>summary\<close> of the model's parsed answer when that is
  truthy and the fixed default text otherwise.
\<close>

theorem empty_report:
  "totalCount ([] :: 'z ScreenshotAnalysis list) = 1 \<and>
   0 < totalCount analyses \<and>
   (\<exists>r. generateReport world ([] :: 'z ScreenshotAnalysis list) 0 = Inr r \<and>
        time_breakdown r = empty_object \<and>
        (generateReport_try world ([] :: 'z ScreenshotAnalysis list) 0 = Inl e \<longrightarrow>
           summary r =
             JStr (([0x4ECA, 0x65E5, 0x5DE5, 0x4F5C] @ ascii '' '') @ ascii ''0'' @
                   (ascii '' '' @ [0x5206, 0x949F, 0xFF0C, 0x5171] @ ascii '' '') @ ascii ''0'' @
                   (ascii '' '' @ [0x6761, 0x8BB0, 0x5F55, 0x3002, 0x4F7F, 0x7528, 0x4E86] @
                    ascii '' '') @
                   [0x591A, 0x4E2A, 0x5E94, 0x7528] @ [0x3002])) \<and>
        (generateReport_try world ([] :: 'z ScreenshotAnalysis list) 0 = Inr r' \<longrightarrow>
           r = r' \<and>
           (\<exists>text result s.
              callOpenAI world (report_prompt ([] :: 'z ScreenshotAnalysis list) 0) None =
                Inr text \<and>
              JSON_parse world text = Inr result \<and>
              get_prop result (ascii ''summary'') = Inr s \<and>
              summary r = (if truthy s then s else JStr default_summary)))) \<and>
   report_prompt ([] :: 'z ScreenshotAnalysis list) 0 =
     prompt_head @ ascii ''0'' @ prompt_after_duration @ ascii ''0'' @
     prompt_after_count @ prompt_tail"
proof (intro conjI)
  show "totalCount ([] :: 'z ScreenshotAnalysis list) = 1"
    by (simp add: totalCount_def)
  show "0 < totalCount analyses"
    by (simp add: totalCount_def)
  show "report_prompt ([] :: 'z ScreenshotAnalysis list) 0 =
     prompt_head @ ascii ''0'' @ prompt_after_duration @ ascii ''0'' @
     prompt_after_count @ prompt_tail"
    by (simp add: report_prompt_def contents_def number_to_string_0)
  let ?none = "[] :: 'z ScreenshotAnalysis list"
  obtain r where r: "generateReport world ?none 0 = Inr r"
    and tb: "time_breakdown r = timeBreakdown ?none 0"
    using generateReport_returns [of world ?none 0] by blast
  have fb: "generateReport_try world ?none 0 = Inl e \<longrightarrow>
          summary r = JStr (fallback_summary ?none 0)"
    using r by (auto simp: generateReport_def generateReport_catch_def)
  have fs: "fallback_summary ?none 0 =
          ([0x4ECA, 0x65E5, 0x5DE5, 0x4F5C] @ ascii '' '') @ ascii ''0'' @
                   (ascii '' '' @ [0x5206, 0x949F, 0xFF0C, 0x5171] @ ascii '' '') @ ascii ''0'' @
                   (ascii '' '' @ [0x6761, 0x8BB0, 0x5F55, 0x3002, 0x4F7F, 0x7528, 0x4E86] @
                    ascii '' '') @
                   [0x591A, 0x4E2A, 0x5E94, 0x7528] @ [0x3002]"
    by (simp add: fallback_summary_def topApps_empty number_to_string_0)
  have ok: "generateReport_try world ?none 0 = Inr r' \<longrightarrow>
           r = r' \<and>
           (\<exists>text result s.
              callOpenAI world (report_prompt ?none 0) None = Inr text \<and>
              JSON_parse world text = Inr result \<and>
              get_prop result (ascii ''summary'') = Inr s \<and>
              summary r = (if truthy s then s else JStr default_summary))"
  proof
    assume t: "generateReport_try world ?none 0 = Inr r'"
    with r have eq: "r = r'"
      by (simp add: generateReport_def)
    from generateReport_try_success [OF t] eq
    show "r = r' \<and>
           (\<exists>text result s.
              callOpenAI world (report_prompt ?none 0) None = Inr text \<and>
              JSON_parse world text = Inr result \<and>
              get_prop result (ascii ''summary'') = Inr s \<and>
              summary r = (if truthy s then s else JStr default_summary))"
      by simp
  qed
  from fb fs have fb': "generateReport_try world ?none 0 = Inl e \<longrightarrow>
           summary r =
             JStr (([0x4ECA, 0x65E5, 0x5DE5, 0x4F5C] @ ascii '' '') @ ascii ''0'' @
                   (ascii '' '' @ [0x5206, 0x949F, 0xFF0C, 0x5171] @ ascii '' '') @ ascii ''0'' @
                   (ascii '' '' @ [0x6761, 0x8BB0, 0x5F55, 0x3002, 0x4F7F, 0x7528, 0x4E86] @
                    ascii '' '') @
                   [0x591A, 0x4E2A, 0x5E94, 0x7528] @ [0x3002])"
    by simp
  from tb have tb': "time_breakdown r = empty_object"
    by (simp add: timeBreakdown_empty)
  from r tb' fb' ok
  show "\<exists>r. generateReport world ?none 0 = Inr r \<and>
        time_breakdown r = empty_object \<and>
        (generateReport_try world ?none 0 = Inl e \<longrightarrow>
           summary r =
             JStr (([0x4ECA, 0x65E5, 0x5DE5, 0x4F5C] @ ascii '' '') @ ascii ''0'' @
                   (ascii '' '' @ [0x5206, 0x949F, 0xFF0C, 0x5171] @ ascii '' '') @ ascii ''0'' @
                   (ascii '' '' @ [0x6761, 0x8BB0, 0x5F55, 0x3002, 0x4F7F, 0x7528, 0x4E86] @
                    ascii '' '') @
                   [0x591A, 0x4E2A, 0x5E94, 0x7528] @ [0x3002])) \<and>
        (generateReport_try world ?none 0 = Inr r' \<longrightarrow>
           r = r' \<and>
           (\<exists>text result s.
              callOpenAI world (report_prompt ?none 0) None = Inr text \<and>
              JSON_parse world text = Inr result \<and>
              get_prop result (ascii ''summary'') = Inr s \<and>
              summary r = (if truthy s then s else JStr default_summary)))"
    by blast
qed

theorem empty_report_witness:
  "(\<exists>r. generateReport offline_world ([] :: unit ScreenshotAnalysis list) 0 = Inr r \<and>
        time_breakdown r = empty_object \<and>
        summary r =
          JStr (([0x4ECA, 0x65E5, 0x5DE5, 0x4F5C] @ ascii '' '') @ ascii ''0'' @
                (ascii '' '' @ [0x5206, 0x949F, 0xFF0C, 0x5171] @ ascii '' '') @ ascii ''0'' @
                (ascii '' '' @ [0x6761, 0x8BB0, 0x5F55, 0x3002, 0x4F7F, 0x7528, 0x4E86] @
                 ascii '' '') @
                [0x591A, 0x4E2A, 0x5E94, 0x7528] @ [0x3002])) \<and>
   (\<exists>r. generateReport (reply_world no_choice) ([] :: unit ScreenshotAnalysis list) 0 = Inr r \<and>
        time_breakdown r = empty_object \<and>
        summary r = JStr default_summary)"
proof -
  let ?none = "[] :: unit ScreenshotAnalysis list"
  let ?r' = "\<lparr>summary = JStr default_summary, highlights = [],
               time_breakdown = timeBreakdown ?none 0,
               productivity_score = 0, suggestions = [],
               generated_at = now_iso (reply_world no_choice)\<rparr>"
  have "generateReport_try offline_world ?none 0 =
          Inl (ErrorObj (ascii ''OPENAI_API_KEY is not configured''))"
    by (simp add: generateReport_try_def callOpenAI_offline)
  with empty_report [of ?none offline_world
         "ErrorObj (ascii ''OPENAI_API_KEY is not configured'')"]
  have 1: "\<exists>r. generateReport offline_world ?none 0 = Inr r \<and>
        time_breakdown r = empty_object \<and>
        summary r =
          JStr (([0x4ECA, 0x65E5, 0x5DE5, 0x4F5C] @ ascii '' '') @ ascii ''0'' @
                (ascii '' '' @ [0x5206, 0x949F, 0xFF0C, 0x5171] @ ascii '' '') @ ascii ''0'' @
                (ascii '' '' @ [0x6761, 0x8BB0, 0x5F55, 0x3002, 0x4F7F, 0x7528, 0x4E86] @
                 ascii '' '') @
                [0x591A, 0x4E2A, 0x5E94, 0x7528] @ [0x3002])"
    by blast
  have t: "generateReport_try (reply_world no_choice) ?none 0 = Inr ?r'"
    by (simp add: generateReport_try_def callOpenAI_reply_no_choice JSON_parse_reply_world
          js_or_def)
  from empty_report [of ?none "reply_world no_choice" _ ?r'] t
  obtain r where r: "generateReport (reply_world no_choice) ?none 0 = Inr r"
    and tb: "time_breakdown r = empty_object" and eq: "r = ?r'"
    by blast
  from eq have "summary r = JStr default_summary"
    by simp
  with r tb have 2: "\<exists>r. generateReport (reply_world no_choice) ?none 0 = Inr r \<and>
        time_breakdown r = empty_object \<and> summary r = JStr default_summary"
    by blast
  from 1 2 show ?thesis by blast
qed

text \<open>
  On the success path the summary need not mention the counts: when the endpoint answers
  with no choice, the parsed text \<open>{}\<close> has no \<open>summary\<close>, the summary of the
  report is the fixed default, and the digit 0 does not occur in it.
\<close>

theorem empty_report_summary_counterexample:
  "\<not> (\<exists>r s. generateReport (reply_world no_choice) ([] :: unit ScreenshotAnalysis list) 0 = Inr r \<and>
             summary r = JStr s \<and> set (number_to_string 0) \<subseteq> set s)"
proof
  assume "\<exists>r s. generateReport (reply_world no_choice) ([] :: unit ScreenshotAnalysis list) 0 = Inr r \<and>
             summary r = JStr s \<and> set (number_to_string 0) \<subseteq> set s"
  then obtain r s
    where r: "generateReport (reply_world no_choice) ([] :: unit ScreenshotAnalysis list) 0 = Inr r"
      and s: "summary r = JStr s" and sub: "set (number_to_string 0) \<subseteq> set s"
    by blast
  have "generateReport_try (reply_world no_choice) ([] :: unit ScreenshotAnalysis list) 0 =
          Inr \<lparr>summary = JStr default_summary, highlights = [],
               time_breakdown = timeBreakdown ([] :: unit ScreenshotAnalysis list) 0,
               productivity_score = 0, suggestions = [],
               generated_at = now_iso (reply_world no_choice)\<rparr>"
    by (simp add: generateReport_try_def callOpenAI_reply_no_choice JSON_parse_reply_world
          js_or_def)
  with r have "summary r = JStr default_summary"
    by (auto simp: generateReport_def)
  with s have "s = default_summary" by simp
  with sub show False
    by (simp add: number_to_string_0 default_summary_def ascii_def)
qed

text \<open>
  C10, as the code has it. \<open>generateReport\<close> does not validate the activity types of
  its input: the own keys of the returned \<open>time_breakdown\<close> are the activity types that
  occur in the input, whether or not they belong to the closed enumeration, except the
  string \<open>__proto__\<close>, for which the assignment sets the prototype and creates no key.
\<close>

theorem time_breakdown_keys_unvalidated:
  "\<exists>r. generateReport world analyses d = Inr r \<and>
       dom (own_props (time_breakdown r)) =
         activity_type ` set analyses - {ascii ''__proto__''} \<and>
       (ascii ''__proto__'' \<notin> activity_type ` set analyses \<longrightarrow>
          dom (own_props (time_breakdown r)) = activity_type ` set analyses)"
proof -
  obtain r where r: "generateReport world analyses d = Inr r"
    and tb: "time_breakdown r = timeBreakdown analyses d"
    using generateReport_returns [of world analyses d] by blast
  from tb have "dom (own_props (time_breakdown r)) =
         activity_type ` set analyses - {ascii ''__proto__''}"
    by (simp add: timeBreakdown_keys)
  with r show ?thesis by auto
qed

theorem time_breakdown_keys_unvalidated_witness:
  "ascii ''gaming'' \<notin> set validTypes \<and>
   (\<exists>r. generateReport offline_world
           [example_analysis ''Steam'' ''gaming'', example_analysis ''Vim'' ''coding''] 60 = Inr r \<and>
        dom (own_props (time_breakdown r)) = {ascii ''gaming'', ascii ''coding''})"
proof -
  let ?as = "[example_analysis ''Steam'' ''gaming'', example_analysis ''Vim'' ''coding'']"
  have types: "activity_type ` set ?as = {ascii ''gaming'', ascii ''coding''}"
    by (simp add: example_analysis_def)
  have "ascii ''__proto__'' \<notin> activity_type ` set ?as"
    unfolding types using activity_names_distinct by auto
  with time_breakdown_keys_unvalidated [of offline_world ?as 60] types gaming_invalid
  show ?thesis by auto
qed

text \<open>
  For a single analysis whose activity type is \<open>__proto__\<close> the report has no own key
  at all, so its keys are not the activity types of the input.
\<close>

theorem time_breakdown_keys_unvalidated_counterexample:
  "\<not> (\<exists>r. generateReport offline_world [example_analysis ''Terminal'' ''__proto__''] 60 = Inr r \<and>
           dom (own_props (time_breakdown r)) =
             activity_type ` set [example_analysis ''Terminal'' ''__proto__''])"
proof
  assume "\<exists>r. generateReport offline_world [example_analysis ''Terminal'' ''__proto__''] 60 = Inr r \<and>
           dom (own_props (time_breakdown r)) =
             activity_type ` set [example_analysis ''Terminal'' ''__proto__'']"
  then obtain r
    where r: "generateReport offline_world [example_analysis ''Terminal'' ''__proto__''] 60 = Inr r"
      and keys: "dom (own_props (time_breakdown r)) =
                   activity_type ` set [example_analysis ''Terminal'' ''__proto__'']"
    by blast
  from r generateReport_returns [of offline_world "[example_analysis ''Terminal'' ''__proto__'']" 60]
  have "time_breakdown r = timeBreakdown [example_analysis ''Terminal'' ''__proto__''] 60"
    by auto
  then have "dom (own_props (time_breakdown r)) = {}"
    by (simp add: timeBreakdown_keys example_analysis_def)
  with keys show False
    by simp
qed

text \<open>
  C6. The digest is the lines of the first 30 analyses joined by a line feed, each line
  being \<open>[app_name] description: \<close> followed by the first 200 code units of the
  detailed content. The prompt is built from the duration, the number of analyses and
  the digest, so two inputs of the same length that agree on \<open>digest_input\<close> give the
  same prompt: what lies past the 30th analysis or past the 200th code unit is not in it.
\<close>

theorem digest_truncation:
  "contents analyses =
     array_join [0x0A]
       (map (\<lambda>a. ascii ''['' @ app_name a @ ascii ''] '' @ description a @ ascii '': '' @
                  take 200 (case detailed_content a of None \<Rightarrow> [] | Some t \<Rightarrow> t))
            (take 30 analyses)) \<and>
   report_prompt analyses d =
     prompt_head @ number_to_string d @ prompt_after_duration @
     number_to_string (length analyses) @ prompt_after_count @ contents analyses @ prompt_tail \<and>
   (length analyses = length analyses' \<and> digest_input analyses = digest_input analyses' \<longrightarrow>
      report_prompt analyses d = report_prompt analyses' d) \<and>
   array_join [0x0A] [x, y, z] = x @ [0x0A] @ y @ [0x0A] @ z"
proof (intro conjI impI)
  show "contents analyses =
     array_join [0x0A]
       (map (\<lambda>a. ascii ''['' @ app_name a @ ascii ''] '' @ description a @ ascii '': '' @
                  take 200 (case detailed_content a of None \<Rightarrow> [] | Some t \<Rightarrow> t))
            (take 30 analyses))"
    by (simp add: contents_def digest_line_fun)
next
  show "report_prompt analyses d =
     prompt_head @ number_to_string d @ prompt_after_duration @
     number_to_string (length analyses) @ prompt_after_count @ contents analyses @ prompt_tail"
    by (simp add: report_prompt_def)
next
  assume "length analyses = length analyses' \<and> digest_input analyses = digest_input analyses'"
  then show "report_prompt analyses d = report_prompt analyses' d"
    by (simp add: report_prompt_def contents_digest_input)
next
  show "array_join [0x0A] [x, y, z] = x @ [0x0A] @ y @ [0x0A] @ z"
    by simp
qed

theorem digest_truncation_witness:
  "report_prompt (replicate 30 (long_analysis ''A'') @ [example_analysis ''Vim'' ''coding'']) 45 =
   report_prompt (replicate 30 (long_analysis ''B'') @ [example_analysis ''Zoom'' ''meeting'']) 45 \<and>
   long_analysis ''A'' \<noteq> long_analysis ''B'' \<and>
   example_analysis ''Vim'' ''coding'' \<noteq> example_analysis ''Zoom'' ''meeting''"
proof -
  let ?as = "replicate 30 (long_analysis ''A'') @ [example_analysis ''Vim'' ''coding'']"
  let ?bs = "replicate 30 (long_analysis ''B'') @ [example_analysis ''Zoom'' ''meeting'']"
  have len: "length ?as = length ?bs"
    by simp
  have dig: "digest_input ?as = digest_input ?bs"
    by (simp add: digest_input_def long_analysis_def)
  have ne: "long_analysis ''A'' \<noteq> long_analysis ''B''"
    by (simp add: long_analysis_def ascii_def)
  have ne': "example_analysis ''Vim'' ''coding'' \<noteq> example_analysis ''Zoom'' ''meeting''"
    by (simp add: example_analysis_def ascii_def)
  from digest_truncation [of ?as 45 ?bs] len dig
  have "report_prompt ?as 45 = report_prompt ?bs 45"
    by blast
  with ne ne' show ?thesis by blast
qed

text \<open>
  C5. When the model call fails, the \<open>try\<close> block throws, and then the report is the
  fallback: the summary is the template with the duration, the number of analyses and the
  first 3 application names in the order of first occurrence, joined by U+3001 (the fixed
  text U+591A U+4E2A U+5E94 U+7528 when the joined names are empty); the highlights are
  U+4F7F U+7528, a space and the name, for the first 5 such names. \<open>time_breakdown\<close>,
  \<open>productivity_score = 0\<close> and \<open>suggestions = []\<close> are the same as on the success
  path.
\<close>

theorem generateReport_fallback:
  "(callOpenAI world (report_prompt analyses d) None = Inl e \<longrightarrow>
      generateReport_try world analyses d = Inl e) \<and>
   (generateReport_try world analyses d = Inl e \<longrightarrow>
      generateReport world analyses d =
        Inr \<lparr>summary =
               JStr (([0x4ECA, 0x65E5, 0x5DE5, 0x4F5C] @ ascii '' '') @
                     number_to_string d @
                     (ascii '' '' @ [0x5206, 0x949F, 0xFF0C, 0x5171] @ ascii '' '') @
                     number_to_string (length analyses) @
                     (ascii '' '' @ [0x6761, 0x8BB0, 0x5F55, 0x3002, 0x4F7F, 0x7528, 0x4E86] @
                      ascii '' '') @
                     (if array_join [0x3001] (take 3 (first_seen (map app_name analyses))) = []
                      then [0x591A, 0x4E2A, 0x5E94, 0x7528]
                      else array_join [0x3001] (take 3 (first_seen (map app_name analyses)))) @
                     [0x3002]),
             highlights =
               map (\<lambda>app. JStr (([0x4F7F, 0x7528] @ ascii '' '') @ app))
                   (take 5 (first_seen (map app_name analyses))),
             time_breakdown = timeBreakdown analyses d,
             productivity_score = 0,
             suggestions = [],
             generated_at = now_iso world\<rparr>) \<and>
   (generateReport_try world analyses d = Inr r \<longrightarrow>
      generateReport world analyses d = Inr r \<and>
      time_breakdown r = timeBreakdown analyses d \<and>
      productivity_score r = 0 \<and> suggestions r = []) \<and>
   distinct (first_seen (map app_name analyses)) \<and>
   set (first_seen (map app_name analyses)) = app_name ` set analyses"
proof (intro conjI impI)
  assume "callOpenAI world (report_prompt analyses d) None = Inl e"
  then show "generateReport_try world analyses d = Inl e"
    by (simp add: generateReport_try_def)
next
  assume "generateReport_try world analyses d = Inl e"
  then show "generateReport world analyses d =
        Inr \<lparr>summary =
               JStr (([0x4ECA, 0x65E5, 0x5DE5, 0x4F5C] @ ascii '' '') @
                     number_to_string d @
                     (ascii '' '' @ [0x5206, 0x949F, 0xFF0C, 0x5171] @ ascii '' '') @
                     number_to_string (length analyses) @
                     (ascii '' '' @ [0x6761, 0x8BB0, 0x5F55, 0x3002, 0x4F7F, 0x7528, 0x4E86] @
                      ascii '' '') @
                     (if array_join [0x3001] (take 3 (first_seen (map app_name analyses))) = []
                      then [0x591A, 0x4E2A, 0x5E94, 0x7528]
                      else array_join [0x3001] (take 3 (first_seen (map app_name analyses)))) @
                     [0x3002]),
             highlights =
               map (\<lambda>app. JStr (([0x4F7F, 0x7528] @ ascii '' '') @ app))
                   (take 5 (first_seen (map app_name analyses))),
             time_breakdown = timeBreakdown analyses d,
             productivity_score = 0,
             suggestions = [],
             generated_at = now_iso world\<rparr>"
    by (simp add: generateReport_def generateReport_catch_def fallback_summary_def
          topApps_first_seen)
next
  assume "generateReport_try world analyses d = Inr r"
  then show "generateReport world analyses d = Inr r"
    by (simp add: generateReport_def)
next
  assume "generateReport_try world analyses d = Inr r"
  then show "time_breakdown r = timeBreakdown analyses d"
    by (rule generateReport_try_fields)
next
  assume "generateReport_try world analyses d = Inr r"
  then show "productivity_score r = 0"
    by (rule generateReport_try_fields)
next
  assume "generateReport_try world analyses d = Inr r"
  then show "suggestions r = []"
    by (rule generateReport_try_fields)
next
  show "distinct (first_seen (map app_name analyses))"
    by (rule first_seen_distinct)
next
  show "set (first_seen (map app_name analyses)) = app_name ` set analyses"
    by (simp add: first_seen_set)
qed

theorem generateReport_fallback_witness:
  "\<exists>r. generateReport offline_world example_session 60 = Inr r \<and>
       summary r =
         JStr ([0x4ECA, 0x65E5, 0x5DE5, 0x4F5C] @ ascii '' 60 '' @
               [0x5206, 0x949F, 0xFF0C, 0x5171] @ ascii '' 7 '' @
               [0x6761, 0x8BB0, 0x5F55, 0x3002, 0x4F7F, 0x7528, 0x4E86] @ ascii '' Code'' @
               [0x3001] @ ascii ''Chrome'' @ [0x3001] @ ascii ''Slack'' @ [0x3002]) \<and>
       highlights r =
         [JStr ([0x4F7F, 0x7528] @ ascii '' Code''), JStr ([0x4F7F, 0x7528] @ ascii '' Chrome''),
          JStr ([0x4F7F, 0x7528] @ ascii '' Slack''), JStr ([0x4F7F, 0x7528] @ ascii '' Figma''),
          JStr ([0x4F7F, 0x7528] @ ascii '' Zoom'')] \<and>
       productivity_score r = 0 \<and> suggestions r = []"
proof -
  let ?e = "ErrorObj (ascii ''OPENAI_API_KEY is not configured'')"
  note a = generateReport_fallback [of offline_world example_session 60 ?e]
  have len: "length example_session = 7"
    by (simp add: example_session_def)
  from a callOpenAI_offline
  have t: "generateReport_try offline_world example_session 60 = Inl ?e"
    by blast
  with a obtain r where r: "generateReport offline_world example_session 60 = Inr r"
    and s: "summary r = JStr (([0x4ECA, 0x65E5, 0x5DE5, 0x4F5C] @ ascii '' '') @
                     number_to_string 60 @
                     (ascii '' '' @ [0x5206, 0x949F, 0xFF0C, 0x5171] @ ascii '' '') @
                     number_to_string (length example_session) @
                     (ascii '' '' @ [0x6761, 0x8BB0, 0x5F55, 0x3002, 0x4F7F, 0x7528, 0x4E86] @
                      ascii '' '') @
                     (if array_join [0x3001] (take 3 (first_seen (map app_name example_session))) = []
                      then [0x591A, 0x4E2A, 0x5E94, 0x7528]
                      else array_join [0x3001] (take 3 (first_seen (map app_name example_session)))) @
                     [0x3002])"
    and h: "highlights r = map (\<lambda>app. JStr (([0x4F7F, 0x7528] @ ascii '' '') @ app))
                   (take 5 (first_seen (map app_name example_session)))"
    and p: "productivity_score r = 0" "suggestions r = []"
    by auto
  from s have s': "summary r =
         JStr ([0x4ECA, 0x65E5, 0x5DE5, 0x4F5C] @ ascii '' 60 '' @
               [0x5206, 0x949F, 0xFF0C, 0x5171] @ ascii '' 7 '' @
               [0x6761, 0x8BB0, 0x5F55, 0x3002, 0x4F7F, 0x7528, 0x4E86] @ ascii '' Code'' @
               [0x3001] @ ascii ''Chrome'' @ [0x3001] @ ascii ''Slack'' @ [0x3002])"
    by (simp add: example_session_apps len number_to_string_60 number_to_string_7 ascii_def)
  from h have h': "highlights r =
         [JStr ([0x4F7F, 0x7528] @ ascii '' Code''), JStr ([0x4F7F, 0x7528] @ ascii '' Chrome''),
          JStr ([0x4F7F, 0x7528] @ ascii '' Slack''), JStr ([0x4F7F, 0x7528] @ ascii '' Figma''),
          JStr ([0x4F7F, 0x7528] @ ascii '' Zoom'')]"
    by (simp add: example_session_apps ascii_def)
  from r s' h' p show ?thesis by blast
qed

subsection \<open>Both operations\<close>

text \<open>
  On inputs of the declared types both operations return a record and throw nothing, and
  no field of the record is \<open>undefined\<close> or \<open>null\<close>. When the model call throws,
  or the parser rejects its text, the result is the record of the \<open>catch\<close> block,
  which for \<open>generateReport\<close> does not depend on the credential, on \<open>fetch\<close> or
  on the parser.
\<close>

lemma operations_return_on_declared_types:
  "(\<exists>r. analyzeScreenshot world img = Inr r \<and>
        app_name r \<noteq> JUndefined \<and> app_name r \<noteq> JNull \<and>
        activity_type r \<noteq> JUndefined \<and> activity_type r \<noteq> JNull \<and>
        description r \<noteq> JUndefined \<and> description r \<noteq> JNull \<and>
        detailed_content r \<noteq> JUndefined \<and> detailed_content r \<noteq> JNull \<and>
        raw_response r \<noteq> JUndefined \<and> raw_response r \<noteq> JNull) \<and>
   (\<exists>r. generateReport world analyses d = Inr r \<and>
        summary r \<noteq> JUndefined \<and> summary r \<noteq> JNull \<and>
        time_breakdown r = timeBreakdown analyses d \<and>
        productivity_score r = 0 \<and> suggestions r = [] \<and> generated_at r = now_iso world) \<and>
   (callOpenAI world analyze_prompt (Some img) = Inl e \<or>
    (\<exists>text. callOpenAI world analyze_prompt (Some img) = Inr text \<and>
            JSON_parse world text = Inl e) \<longrightarrow>
      analyzeScreenshot world img = Inr (analyzeScreenshot_catch e)) \<and>
   (callOpenAI world (report_prompt analyses d) None = Inl e \<or>
    (\<exists>text. callOpenAI world (report_prompt analyses d) None = Inr text \<and>
            JSON_parse world text = Inl e) \<longrightarrow>
      generateReport world analyses d = Inr (generateReport_catch world analyses d)) \<and>
   generateReport_catch (world\<lparr>OPENAI_API_KEY := k, fetch := f, JSON_parse := p\<rparr>) analyses d =
     generateReport_catch world analyses d"
proof (intro conjI impI)
  show "\<exists>r. analyzeScreenshot world img = Inr r \<and>
        app_name r \<noteq> JUndefined \<and> app_name r \<noteq> JNull \<and>
        activity_type r \<noteq> JUndefined \<and> activity_type r \<noteq> JNull \<and>
        description r \<noteq> JUndefined \<and> description r \<noteq> JNull \<and>
        detailed_content r \<noteq> JUndefined \<and> detailed_content r \<noteq> JNull \<and>
        raw_response r \<noteq> JUndefined \<and> raw_response r \<noteq> JNull"
  proof (cases "analyzeScreenshot_try world img")
    case (Inl e')
    then show ?thesis
      by (simp add: analyzeScreenshot_def analyzeScreenshot_catch_fields)
  next
    case (Inr r)
    note f = analyzeScreenshot_try_fields [OF Inr]
    from f(1) have "activity_type r \<noteq> JUndefined \<and> activity_type r \<noteq> JNull"
      by auto
    moreover from f(7) have "raw_response r \<noteq> JUndefined \<and> raw_response r \<noteq> JNull"
      by (rule callOpenAI_defined)
    moreover from Inr have "analyzeScreenshot world img = Inr r"
      by (simp add: analyzeScreenshot_def)
    ultimately show ?thesis
      using f(4,5,6) by blast
  qed
next
  show "\<exists>r. generateReport world analyses d = Inr r \<and>
        summary r \<noteq> JUndefined \<and> summary r \<noteq> JNull \<and>
        time_breakdown r = timeBreakdown analyses d \<and>
        productivity_score r = 0 \<and> suggestions r = [] \<and> generated_at r = now_iso world"
    by (rule generateReport_returns)
next
  assume "callOpenAI world analyze_prompt (Some img) = Inl e \<or>
    (\<exists>text. callOpenAI world analyze_prompt (Some img) = Inr text \<and>
            JSON_parse world text = Inl e)"
  then have "analyzeScreenshot_try world img = Inl e"
    using analyzeScreenshot_try_failures by blast
  then show "analyzeScreenshot world img = Inr (analyzeScreenshot_catch e)"
    by (simp add: analyzeScreenshot_def)
next
  assume "callOpenAI world (report_prompt analyses d) None = Inl e \<or>
    (\<exists>text. callOpenAI world (report_prompt analyses d) None = Inr text \<and>
            JSON_parse world text = Inl e)"
  then have "generateReport_try world analyses d = Inl e"
    using generateReport_try_failures by blast
  then show "generateReport world analyses d = Inr (generateReport_catch world analyses d)"
    by (simp add: generateReport_def)
next
  show "generateReport_catch (world\<lparr>OPENAI_API_KEY := k, fetch := f, JSON_parse := p\<rparr>) analyses d =
     generateReport_catch world analyses d"
    by (simp add: generateReport_catch_def)
qed

text \<open>
  C1. The two operations are to return a record for every input and never to let an
  error reach their caller. \<open>analyzeScreenshot\<close> does; \<open>generateReport\<close> does not
  on a record that \<open>analyzeScreenshot\<close> itself can return. When the model answers
  \<open>{"detailed_content": true}\<close>, the analysis has \<open>detailed_content = true\<close>;
  handed on to \<open>generateReport\<close>, the digest calls \<open>slice\<close> on it before the
  \<open>try\<close> block, and the TypeError leaves the function, in every environment.
\<close>

theorem generateReport_throws_on_analyzer_output:
  "analyzeScreenshot flag_world (ascii ''aGVsbG8='') =
     Inr \<lparr>app_name = JStr (ascii ''Unknown''),
          activity_type = JStr (ascii ''other''),
          description = JStr [],
          detailed_content = JBool True,
          tags = [],
          confidence = fl (4 / 5),
          raw_response = JStr flag_text\<rparr> \<and>
   passed_on \<lparr>app_name = JStr (ascii ''Unknown''),
              activity_type = JStr (ascii ''other''),
              description = JStr [],
              detailed_content = JBool True,
              tags = [],
              confidence = fl (4 / 5),
              raw_response = JStr flag_text\<rparr> = Some flagged_analysis \<and>
   generateReport_runtime ToString world [flagged_analysis] 60 =
     Inl (ErrorObj (ascii ''a.detailed_content?.slice is not a function''))"
proof (intro conjI)
  show "analyzeScreenshot flag_world (ascii ''aGVsbG8='') =
     Inr \<lparr>app_name = JStr (ascii ''Unknown''),
          activity_type = JStr (ascii ''other''),
          description = JStr [],
          detailed_content = JBool True,
          tags = [],
          confidence = fl (4 / 5),
          raw_response = JStr flag_text\<rparr>"
    by (rule analyzeScreenshot_flag_world)
next
  show "passed_on \<lparr>app_name = JStr (ascii ''Unknown''),
              activity_type = JStr (ascii ''other''),
              description = JStr [],
              detailed_content = JBool True,
              tags = [],
              confidence = fl (4 / 5),
              raw_response = JStr flag_text\<rparr> = Some flagged_analysis"
    by (simp add: passed_on_def flagged_analysis_def)
next
  have "\<not> (\<forall>a \<in> set (take 30 [flagged_analysis]). sliceable (detailed_content a))"
    by (simp add: flagged_analysis_def sliceable_def)
  then show "generateReport_runtime ToString world [flagged_analysis] 60 =
     Inl (ErrorObj (ascii ''a.detailed_content?.slice is not a function''))"
    using generateReport_runtime_cases [of "[flagged_analysis]" ToString world 60] by blast
qed

end
